theory Spec2Isabelle
  imports Complex_Main "HOL-Library.AList"
begin

section \<open>JavaScript values\<close>

text \<open>
  The program is TypeScript running on Electron. Its run-time checks (\<open>typeof\<close>,
  \<open>!x\<close>, \<open>isNaN\<close>, \<open>instanceof Error\<close>) look at values of any shape,
  so values are modelled as a tree datatype. A number is a double: only its comparison
  with zero and its being NaN are ever inspected, so the finite ones are carried as reals.
  A native error carries its name, message, stack and cause.
\<close>

datatype jsnum = NaN | PosInf | NegInf | Fin real

datatype jsval =
    JUndefined
  | JNull
  | JBool bool
  | JNum jsnum
  | JStr string
  | JObj "(string \<times> jsval) list"
  | JArr "jsval list"
  | JFun string
  | JErr string string jsval jsval

datatype jstype = T_undefined | T_object | T_boolean | T_number | T_string | T_function

fun typeof :: "jsval \<Rightarrow> jstype" where
  "typeof JUndefined = T_undefined"
| "typeof JNull = T_object"
| "typeof (JBool b) = T_boolean"
| "typeof (JNum n) = T_number"
| "typeof (JStr s) = T_string"
| "typeof (JObj fs) = T_object"
| "typeof (JArr xs) = T_object"
| "typeof (JFun f) = T_function"
| "typeof (JErr n m s c) = T_object"

text \<open>\<open>truthy v\<close> is the outcome of \<open>if (v)\<close>; \<open>!v\<close> is its negation.\<close>

fun truthy :: "jsval \<Rightarrow> bool" where
  "truthy JUndefined = False"
| "truthy JNull = False"
| "truthy (JBool b) = b"
| "truthy (JNum n) = (n \<noteq> NaN \<and> n \<noteq> Fin 0)"
| "truthy (JStr s) = (s \<noteq> [])"
| "truthy (JObj fs) = True"
| "truthy (JArr xs) = True"
| "truthy (JFun f) = True"
| "truthy (JErr n m s c) = True"

text \<open>\<open>x <= 0\<close> on numbers: every comparison with NaN is false.\<close>

fun le_zero :: "jsnum \<Rightarrow> bool" where
  "le_zero NaN = False"
| "le_zero PosInf = False"
| "le_zero NegInf = True"
| "le_zero (Fin x) = (x \<le> 0)"

fun instanceof_Error :: "jsval \<Rightarrow> bool" where
  "instanceof_Error (JErr n m s c) = True"
| "instanceof_Error v = False"

text \<open>
  Property reads. A plain object answers with its own field, or else with what it
  inherits from \<open>Object.prototype\<close>: the built-in methods (functions) and the
  \<open>__proto__\<close> accessor (the prototype object itself). None of the names the program
  reads by a fixed key (\<open>type\<close>, \<open>width\<close>, \<open>height\<close>, \<open>code\<close>, \<open>name\<close>,
  \<open>message\<close>) is inherited by a plain object or an array.
\<close>

definition object_prototype_methods :: "string list" where
  "object_prototype_methods =
     [''constructor'', ''hasOwnProperty'', ''isPrototypeOf'', ''propertyIsEnumerable'',
      ''toLocaleString'', ''toString'', ''valueOf'', ''__defineGetter__'',
      ''__defineSetter__'', ''__lookupGetter__'', ''__lookupSetter__'']"

definition object_prototype_get :: "string \<Rightarrow> jsval" where
  "object_prototype_get k =
     (if k = ''__proto__'' then JObj []
      else if k \<in> set object_prototype_methods then JFun k
      else JUndefined)"

fun get_prop :: "jsval \<Rightarrow> string \<Rightarrow> jsval" where
  "get_prop (JObj fs) k = (case map_of fs k of Some v \<Rightarrow> v | None \<Rightarrow> object_prototype_get k)"
| "get_prop (JErr n m s c) k =
     (if k = ''name'' then JStr n
      else if k = ''message'' then JStr m
      else if k = ''stack'' then s
      else if k = ''cause'' then c
      else object_prototype_get k)"
| "get_prop v k = JUndefined"

definition object_keys :: "jsval \<Rightarrow> string list" where
  "object_keys v = (case v of JObj fs \<Rightarrow> remdups (map fst fs) | _ \<Rightarrow> [])"

fun join :: "string \<Rightarrow> string list \<Rightarrow> string" where
  "join sep [] = []"
| "join sep [x] = x"
| "join sep (x # y # ys) = x @ sep @ join sep (y # ys)"

text \<open>\<open>s.includes(sub)\<close>: \<open>sub\<close> occurs in \<open>s\<close> as a contiguous run.\<close>

fun str_includes :: "string \<Rightarrow> string \<Rightarrow> bool" where
  "str_includes [] sub = (sub = [])"
| "str_includes (c # cs) sub = (take (length sub) (c # cs) = sub \<or> str_includes cs sub)"

declare str_includes.simps [simp del]

subsection \<open>Decimal rendering of counters\<close>

fun string_of_nat :: "nat \<Rightarrow> string" where
  "string_of_nat n =
     (if n < 10 then [''0123456789'' ! n]
      else string_of_nat (n div 10) @ [''0123456789'' ! (n mod 10)])"

declare string_of_nat.simps [simp del]

subsection \<open>What the platform supplies\<close>

text \<open>
  The program calls into its runtime for \<open>JSON.stringify\<close> (absent result:
  \<open>undefined\<close>), for the text of a non-string value inside a template literal, for the
  stack recorded in a freshly built \<open>Error\<close>, and for \<open>__dirname\<close> and
  \<open>path.join\<close>. They are parameters of the model.
\<close>

record platform =
  JSON_stringify :: "jsval \<Rightarrow> string option"
  ToString :: "jsval \<Rightarrow> string"
  captureStack :: "string \<Rightarrow> jsval"
  dirname :: string
  path_join :: "string \<Rightarrow> string \<Rightarrow> string"

text \<open>A value spliced into a template literal (\<open>`${v}`\<close>).\<close>

definition template :: "platform \<Rightarrow> jsval \<Rightarrow> string" where
  "template pf v =
     (case v of
        JStr s \<Rightarrow> s
      | JUndefined \<Rightarrow> ''undefined''
      | JNull \<Rightarrow> ''null''
      | JBool b \<Rightarrow> (if b then ''true'' else ''false'')
      | _ \<Rightarrow> ToString pf v)"

definition template_opt :: "string option \<Rightarrow> string" where
  "template_opt r = (case r of None \<Rightarrow> ''undefined'' | Some s \<Rightarrow> s)"

text \<open>\<open>new Error(msg)\<close>.\<close>

definition new_Error :: "platform \<Rightarrow> string \<Rightarrow> jsval" where
  "new_Error pf msg = JErr ''Error'' msg (captureStack pf msg) JUndefined"

section \<open>The window manager\<close>

text \<open>
  A window handle is a reference to a \<open>BrowserWindow\<close> object of the platform. The
  program asks a window whether it is destroyed, focuses it, closes it and reads its
  \<open>id\<close>; each of the three calls may throw. The bulk close and the count of live
  windows catch what a liveness check throws, and \<open>createChildWindow\<close> catches what
  \<open>focus\<close> throws; the lookup by kind has no guard of its own. The two tags
  \<open>windowType\<close> and \<open>windowId\<close> are written onto the object by the manager.
\<close>

type_synonym handle = nat

record BrowserWindow =
  win_id :: nat
  isDestroyed :: "jsval + bool"
  focus_call :: "jsval option"
  close_call :: "jsval option"
  parentWindow :: "handle option"
  windowType :: "string option"
  windowId :: "string option"

record BrowserWindowOptions =
  width :: jsnum
  height :: jsnum
  nodeIntegration :: bool
  contextIsolation :: bool
  preload :: string
  parent :: "handle option"
  modal :: bool
  show_initially :: bool
  title :: string
  resizable :: bool
  minimizable :: bool
  maximizable :: bool
  closable :: bool

datatype console_level = LOG | WARN | ERROR

datatype event =
    Console console_level string "jsval list"
  | New_BrowserWindow BrowserWindowOptions
  | Call_focus handle
  | Call_close handle
  | Call_loadFile handle string string

text \<open>
  The world outside the manager: the window objects by handle, how many have been
  constructed, the platform's list of open windows, and the calls and console lines
  made so far, oldest first.
\<close>

record world =
  windows :: "handle \<Rightarrow> BrowserWindow"
  allocated :: nat
  allWindows :: "handle list"
  events :: "event list"

text \<open>
  \<open>childWindows\<close> is a \<open>Map\<close>: it keeps insertion order, \<open>set\<close> replaces the
  value of a key in place or appends a new key, \<open>delete\<close> removes the key.
\<close>

record WindowManager =
  childWindows :: "(string \<times> handle) list"
  windowCounter :: nat

text \<open>\<open>new WindowManager()\<close>.\<close>

definition new_manager :: WindowManager where
  "new_manager = \<lparr>childWindows = [], windowCounter = 0\<rparr>"

definition emit :: "event \<Rightarrow> world \<Rightarrow> world" where
  "emit e w = w\<lparr>events := events w @ [e]\<rparr>"

fun find_loop :: "world \<Rightarrow> string \<Rightarrow> (string \<times> handle) list \<Rightarrow> jsval + handle option" where
  "find_loop w t [] = Inr None"
| "find_loop w t ((k, h) # es) =
     (case isDestroyed (windows w h) of
        Inl e \<Rightarrow> Inl e
      | Inr d \<Rightarrow>
          if \<not> d \<and> windowType (windows w h) = Some t then Inr (Some h)
          else find_loop w t es)"

definition findWindowByType :: "WindowManager \<Rightarrow> world \<Rightarrow> string \<Rightarrow> jsval + handle option" where
  "findWindowByType wm w t = find_loop w t (childWindows wm)"

definition getMainWindow :: "world \<Rightarrow> handle option" where
  "getMainWindow w = find (\<lambda>h. parentWindow (windows w h) = None) (allWindows w)"

text \<open>The options object handed to \<open>new BrowserWindow\<close>.\<close>

definition child_window_options ::
  "string \<Rightarrow> jsnum \<Rightarrow> jsnum \<Rightarrow> string \<Rightarrow> handle option \<Rightarrow> BrowserWindowOptions" where
  "child_window_options t wd ht preloadPath mainWindow =
     \<lparr>width = wd, height = ht, nodeIntegration = False, contextIsolation = True,
      preload = preloadPath, parent = mainWindow, modal = False,
      show_initially = False, title = ''Child Window - '' @ t,
      resizable = True, minimizable = True, maximizable = True, closable = True\<rparr>"

text \<open>
  The part of \<open>createChildWindow\<close> from the preload path on: build the window, record
  it under its id, tag it, start loading its page. Registering listeners and the
  show-when-ready timer only schedule callbacks and leave no trace in the result.
\<close>

definition construct_window ::
  "platform \<Rightarrow> (BrowserWindowOptions \<Rightarrow> jsval + BrowserWindow) \<Rightarrow> string \<Rightarrow> string \<Rightarrow>
   jsnum \<Rightarrow> jsnum \<Rightarrow> WindowManager \<Rightarrow> world \<Rightarrow> (jsval + handle) \<times> WindowManager \<times> world"
where
  "construct_window pf ctor t wid wd ht wm w =
     (let preloadPath = path_join pf (dirname pf) ''childPreload.js'';
          w1 = emit (Console LOG (''Using preload script: '' @ preloadPath) []) w;
          opts = child_window_options t wd ht preloadPath (getMainWindow w1);
          w2 = emit (New_BrowserWindow opts) w1
      in case ctor opts of
           Inl e \<Rightarrow> (Inl e, wm, w2)
         | Inr bw \<Rightarrow>
             (let h = allocated w2;
                  wm1 = wm\<lparr>childWindows := AList.update wid h (childWindows wm)\<rparr>;
                  w3 = w2\<lparr>windows := (windows w2)(h := bw\<lparr>windowType := Some t, windowId := Some wid\<rparr>),
                          allocated := h + 1,
                          allWindows := allWindows w2 @ [h]\<rparr>;
                  htmlPath = path_join pf (dirname pf) ''../renderer/child.html'';
                  w4 = emit (Console LOG (''Loading child component for '' @ t @ '' from: '' @ htmlPath) []) w3;
                  w5 = emit (Call_loadFile h htmlPath t) w4;
                  w6 = emit (Console LOG (''Successfully created child window: '' @ wid) []) w5
              in (Inr h, wm1, w6)))"

text \<open>
  The body of the \<open>try\<close> block of \<open>createChildWindow\<close>. The two \<open>typeof\<close> tests on
  the dimensions and the two \<open>isNaN\<close> tests are the match on \<open>JNum\<close>: the source's
  \<open>||\<close> evaluates \<open>isNaN\<close> only on numbers.
\<close>

definition createChildWindow_try ::
  "platform \<Rightarrow> (BrowserWindowOptions \<Rightarrow> jsval + BrowserWindow) \<Rightarrow> jsval \<Rightarrow> jsval \<Rightarrow>
   WindowManager \<Rightarrow> world \<Rightarrow> (jsval + handle) \<times> WindowManager \<times> world"
where
  "createChildWindow_try pf ctor type dimensions wm w =
     (let c = windowCounter wm + 1;
          wm1 = wm\<lparr>windowCounter := c\<rparr>;
          wid = template pf type @ ''-'' @ string_of_nat c;
          w1 = emit (Console LOG (''Creating child window: '' @ wid) []) w
      in case type of
           JStr t \<Rightarrow>
             if t = [] then (Inl (new_Error pf (''Invalid window type: '' @ template pf type)), wm1, w1)
             else if \<not> truthy dimensions
               then (Inl (new_Error pf (''Invalid dimensions: '' @ template_opt (JSON_stringify pf dimensions))), wm1, w1)
             else
               (case (get_prop dimensions ''width'', get_prop dimensions ''height'') of
                  (JNum wd, JNum ht) \<Rightarrow>
                    if wd = NaN \<or> ht = NaN
                      then (Inl (new_Error pf (''Invalid dimensions: '' @ template_opt (JSON_stringify pf dimensions))), wm1, w1)
                    else if le_zero wd \<or> le_zero ht
                      then (Inl (new_Error pf ''Invalid dimensions: width and height must be positive numbers''), wm1, w1)
                    else
                      (case findWindowByType wm1 w1 t of
                         Inl e \<Rightarrow> (Inl e, wm1, w1)
                       | Inr None \<Rightarrow> construct_window pf ctor t wid wd ht wm1 w1
                       | Inr (Some h) \<Rightarrow>
                           (case isDestroyed (windows w1 h) of
                              Inl e \<Rightarrow> (Inl e, wm1, w1)
                            | Inr True \<Rightarrow> construct_window pf ctor t wid wd ht wm1 w1
                            | Inr False \<Rightarrow>
                                (let w2 = emit (Console LOG (''Window of type '' @ t @ '' already exists, bringing to front'') []) w1;
                                     w3 = emit (Call_focus h) w2
                                 in case focus_call (windows w3 h) of
                                      None \<Rightarrow> (Inr h, wm1, w3)
                                    | Some focusError \<Rightarrow>
                                        construct_window pf ctor t wid wd ht wm1
                                          (emit (Console ERROR (''Failed to focus existing window: '' @ template pf focusError) []) w3))))
                | _ \<Rightarrow> (Inl (new_Error pf (''Invalid dimensions: '' @ template_opt (JSON_stringify pf dimensions))), wm1, w1))
         | _ \<Rightarrow> (Inl (new_Error pf (''Invalid window type: '' @ template pf type)), wm1, w1))"

text \<open>The \<open>catch\<close> of \<open>createChildWindow\<close> logs what was thrown and throws it again.\<close>

definition createChildWindow ::
  "platform \<Rightarrow> (BrowserWindowOptions \<Rightarrow> jsval + BrowserWindow) \<Rightarrow> jsval \<Rightarrow> jsval \<Rightarrow>
   WindowManager \<Rightarrow> world \<Rightarrow> (jsval + handle) \<times> WindowManager \<times> world"
where
  "createChildWindow pf ctor type dimensions wm w =
     (case createChildWindow_try pf ctor type dimensions wm w of
        (Inl error, wm1, w1) \<Rightarrow>
          (Inl error, wm1,
           emit (Console ERROR (''Failed to create child window of type '' @ template pf type @ '':'') [error]) w1)
      | (Inr h, wm1, w1) \<Rightarrow> (Inr h, wm1, w1))"

text \<open>
  \<open>closeAllChildWindows\<close>: the \<open>forEach\<close> over the snapshot of the entries. The
  \<open>try\<close> covers the liveness check and the \<open>close\<close> call; \<open>closedCount++\<close> comes
  after \<open>close\<close> has returned.
\<close>

fun close_loop :: "world \<Rightarrow> nat \<Rightarrow> (string \<times> handle) list \<Rightarrow> nat \<times> world" where
  "close_loop w closedCount [] = (closedCount, w)"
| "close_loop w closedCount ((wid, h) # es) =
     (case isDestroyed (windows w h) of
        Inl error \<Rightarrow>
          close_loop (emit (Console ERROR (''Failed to close window '' @ wid @ '':'') [error]) w) closedCount es
      | Inr True \<Rightarrow>
          close_loop (emit (Console LOG (''Window '' @ wid @ '' already destroyed'') []) w) closedCount es
      | Inr False \<Rightarrow>
          (let w1 = emit (Console LOG (''Closing window: '' @ wid) []) w;
               w2 = emit (Call_close h) w1
           in case close_call (windows w2 h) of
                None \<Rightarrow> close_loop w2 (closedCount + 1) es
              | Some error \<Rightarrow>
                  close_loop (emit (Console ERROR (''Failed to close window '' @ wid @ '':'') [error]) w2) closedCount es))"

definition closeAllChildWindows :: "WindowManager \<Rightarrow> world \<Rightarrow> nat \<times> WindowManager \<times> world" where
  "closeAllChildWindows wm w =
     (let windowsToClose = childWindows wm;
          w1 = emit (Console LOG (''Attempting to close '' @ string_of_nat (length windowsToClose) @ '' child windows'') []) w;
          (closedCount, w2) = close_loop w1 0 windowsToClose;
          wm1 = wm\<lparr>childWindows := []\<rparr>;
          w3 = emit (Console LOG (''Successfully closed '' @ string_of_nat closedCount @ '' child windows'') []) w2
      in (closedCount, wm1, w3))"

text \<open>
  \<open>getActiveWindowCount\<close>: the counting pass collects the ids of the entries found
  destroyed (or whose check threw); the second pass deletes them.
\<close>

fun count_loop :: "world \<Rightarrow> nat \<Rightarrow> string list \<Rightarrow> (string \<times> handle) list \<Rightarrow> nat \<times> string list \<times> world" where
  "count_loop w activeCount destroyedWindows [] = (activeCount, destroyedWindows, w)"
| "count_loop w activeCount destroyedWindows ((wid, h) # es) =
     (case isDestroyed (windows w h) of
        Inl error \<Rightarrow>
          count_loop (emit (Console ERROR (''Error checking window '' @ wid @ '' status:'') [error]) w)
            activeCount (destroyedWindows @ [wid]) es
      | Inr True \<Rightarrow> count_loop w activeCount (destroyedWindows @ [wid]) es
      | Inr False \<Rightarrow> count_loop w (activeCount + 1) destroyedWindows es)"

fun cleanup_loop :: "WindowManager \<Rightarrow> world \<Rightarrow> string list \<Rightarrow> WindowManager \<times> world" where
  "cleanup_loop wm w [] = (wm, w)"
| "cleanup_loop wm w (wid # ws) =
     cleanup_loop (wm\<lparr>childWindows := AList.delete wid (childWindows wm)\<rparr>)
       (emit (Console LOG (''Cleaned up destroyed window: '' @ wid) []) w) ws"

definition getActiveWindowCount :: "WindowManager \<Rightarrow> world \<Rightarrow> nat \<times> WindowManager \<times> world" where
  "getActiveWindowCount wm w =
     (let (activeCount, destroyedWindows, w1) = count_loop w 0 [] (childWindows wm);
          (wm1, w2) = cleanup_loop wm w1 destroyedWindows
      in (activeCount, wm1, w2))"

text \<open>The listener the manager registers for a window's \<open>closed\<close> event.\<close>

definition on_closed :: "string \<Rightarrow> string \<Rightarrow> WindowManager \<Rightarrow> world \<Rightarrow> WindowManager \<times> world" where
  "on_closed t wid wm w =
     (wm\<lparr>childWindows := AList.delete wid (childWindows wm)\<rparr>,
      emit (Console LOG (''Child window '' @ t @ '' ('' @ wid @ '') closed'') []) w)"

section \<open>The host's \<open>open-child-window\<close> handler\<close>

definition dims :: "real \<Rightarrow> real \<Rightarrow> jsval" where
  "dims wd ht = JObj [(''width'', JNum (Fin wd)), (''height'', JNum (Fin ht))]"

definition CHILD_WINDOW_CONFIGS :: jsval where
  "CHILD_WINDOW_CONFIGS =
     JObj [(''child1'', dims 300 300), (''child2'', dims 500 300), (''child3'', dims 250 200)]"

text \<open>The envelope \<open>{success, error?, windowId?}\<close> the handler answers with.\<close>

record ipc_response =
  success :: bool
  error :: "string option"
  resp_windowId :: "nat option"

text \<open>\<open>error instanceof Error ? error.message : 'Unknown error occurred'\<close>\<close>

definition errorMessage_of :: "jsval \<Rightarrow> string" where
  "errorMessage_of e = (case e of JErr n m s c \<Rightarrow> m | _ \<Rightarrow> ''Unknown error occurred'')"

text \<open>
  The \<open>try\<close> block of the handler. \<open>windowManager\<close> is the module variable, unset
  (\<open>None\<close>) until the application is ready. \<open>CHILD_WINDOW_CONFIGS[type]\<close> is an
  ordinary property read on an object literal.
\<close>

definition open_child_window_try ::
  "platform \<Rightarrow> (BrowserWindowOptions \<Rightarrow> jsval + BrowserWindow) \<Rightarrow> WindowManager option \<Rightarrow> world \<Rightarrow>
   jsval \<Rightarrow> (jsval + nat) \<times> WindowManager option \<times> world"
where
  "open_child_window_try pf ctor windowManager w data =
     (if \<not> truthy data \<or> typeof data \<noteq> T_object
        then (Inl (new_Error pf ''Invalid request data: expected object with type property''), windowManager, w)
      else
        (case get_prop data ''type'' of
           JStr t \<Rightarrow>
             if t = []
               then (Inl (new_Error pf ''Invalid child window type: type must be a non-empty string''), windowManager, w)
             else
               (let dimensions = get_prop CHILD_WINDOW_CONFIGS t
                in if \<not> truthy dimensions
                     then (Inl (new_Error pf (''Invalid child window type: '' @ t @ ''. Valid types are: ''
                                   @ join '', '' (object_keys CHILD_WINDOW_CONFIGS))), windowManager, w)
                   else
                     (case windowManager of
                        None \<Rightarrow> (Inl (new_Error pf ''Window manager not initialized''), windowManager, w)
                      | Some wm \<Rightarrow>
                          (case createChildWindow pf ctor (JStr t) dimensions wm w of
                             (Inl e, wm1, w1) \<Rightarrow> (Inl e, Some wm1, w1)
                           | (Inr childWindow, wm1, w1) \<Rightarrow>
                               (Inr (win_id (windows w1 childWindow)), Some wm1,
                                emit (Console LOG (''Successfully created child window: '' @ t @ '' (ID: ''
                                        @ string_of_nat (win_id (windows w1 childWindow)) @ '')'') []) w1))))
         | _ \<Rightarrow> (Inl (new_Error pf ''Invalid child window type: type must be a non-empty string''), windowManager, w)))"

definition open_child_window ::
  "platform \<Rightarrow> (BrowserWindowOptions \<Rightarrow> jsval + BrowserWindow) \<Rightarrow> WindowManager option \<Rightarrow> world \<Rightarrow>
   jsval \<Rightarrow> ipc_response \<times> WindowManager option \<times> world"
where
  "open_child_window pf ctor windowManager w data =
     (case open_child_window_try pf ctor windowManager w data of
        (Inr wid, wm1, w1) \<Rightarrow> (\<lparr>success = True, error = None, resp_windowId = Some wid\<rparr>, wm1, w1)
      | (Inl e, wm1, w1) \<Rightarrow>
          (\<lparr>success = False, error = Some (errorMessage_of e), resp_windowId = None\<rparr>, wm1,
           emit (Console ERROR ''Failed to create child window:'' [JStr (errorMessage_of e), e]) w1))"

section \<open>Sample platform and windows\<close>

definition sample_platform :: platform where
  "sample_platform =
     \<lparr>JSON_stringify = (\<lambda>v. case v of JUndefined \<Rightarrow> None | JFun f \<Rightarrow> None | JObj [] \<Rightarrow> Some ''{}'' | _ \<Rightarrow> Some ''{...}''),
      ToString = (\<lambda>v. ''[object Object]''),
      captureStack = (\<lambda>m. JStr (''Error: '' @ m)),
      dirname = ''/app/dist/main'',
      path_join = (\<lambda>a b. a @ ''/'' @ b)\<rparr>"

definition sample_window :: "nat \<Rightarrow> BrowserWindow" where
  "sample_window n =
     \<lparr>win_id = n, isDestroyed = Inr False, focus_call = None, close_call = None,
      parentWindow = None, windowType = None, windowId = None\<rparr>"

definition sample_ctor :: "nat \<Rightarrow> BrowserWindowOptions \<Rightarrow> jsval + BrowserWindow" where
  "sample_ctor n opts = Inr (sample_window n)"

definition empty_world :: world where
  "empty_world = \<lparr>windows = (\<lambda>h. sample_window 0), allocated = 0, allWindows = [], events = []\<rparr>"

section \<open>Notions the properties are stated with\<close>

text \<open>The events a call added to the world's record.\<close>

definition events_since :: "world \<Rightarrow> world \<Rightarrow> event list" where
  "events_since w w1 = drop (length (events w)) (events w1)"

definition is_construction :: "event \<Rightarrow> bool" where
  "is_construction e = (case e of New_BrowserWindow opts \<Rightarrow> True | _ \<Rightarrow> False)"

text \<open>The id \<open>`${type}-${n}`\<close> of a window of kind \<open>t\<close>.\<close>

definition window_id :: "string \<Rightarrow> nat \<Rightarrow> string" where
  "window_id t c = t @ ''-'' @ string_of_nat c"

text \<open>
  Dimensions that pass the manager's validation: an object whose \<open>width\<close> and
  \<open>height\<close> are numbers, neither NaN nor at most zero.
\<close>

definition valid_dimensions :: "jsval \<Rightarrow> jsnum \<Rightarrow> jsnum \<Rightarrow> bool" where
  "valid_dimensions d wd ht =
     (truthy d \<and> get_prop d ''width'' = JNum wd \<and> get_prop d ''height'' = JNum ht \<and>
      wd \<noteq> NaN \<and> ht \<noteq> NaN \<and> \<not> le_zero wd \<and> \<not> le_zero ht)"

text \<open>A tracked entry whose window is not destroyed and is tagged with kind \<open>t\<close>.\<close>

definition live_of_kind :: "world \<Rightarrow> string \<Rightarrow> string \<times> handle \<Rightarrow> bool" where
  "live_of_kind w t e =
     (isDestroyed (windows w (snd e)) = Inr False \<and> windowType (windows w (snd e)) = Some t)"

text \<open>A tracked entry whose liveness check returns rather than throws.\<close>

definition answers :: "world \<Rightarrow> string \<times> handle \<Rightarrow> bool" where
  "answers w e = (case isDestroyed (windows w (snd e)) of Inl x \<Rightarrow> False | Inr b \<Rightarrow> True)"

text \<open>
  The entries \<open>findWindowByType\<close> looks at before it meets a live window of kind
  \<open>t\<close>: all of them when there is none.
\<close>

definition examined_before :: "world \<Rightarrow> string \<Rightarrow> (string \<times> handle) list \<Rightarrow> (string \<times> handle) list" where
  "examined_before w t es = takeWhile (\<lambda>e. \<not> live_of_kind w t e) es"

text \<open>
  The call returned the existing handle \<open>h\<close>: nothing was constructed, the registry
  and the window objects are as before, and \<open>focus\<close> was called on \<open>h\<close>.
\<close>

definition focused_existing ::
  "handle \<Rightarrow> WindowManager \<Rightarrow> world \<Rightarrow> (jsval + handle) \<times> WindowManager \<times> world \<Rightarrow> bool" where
  "focused_existing h wm w r =
     (fst r = Inr h \<and>
      childWindows (fst (snd r)) = childWindows wm \<and>
      windows (snd (snd r)) = windows w \<and>
      allocated (snd (snd r)) = allocated w \<and>
      filter is_construction (events_since w (snd (snd r))) = [] \<and>
      Call_focus h \<in> set (events_since w (snd (snd r))))"

text \<open>
  The call invoked the constructor once, with the options of kind \<open>t\<close> and the given
  size. If the constructor threw, the call threw the same value and tracked nothing; if
  it returned a window, that window got the next handle, was tagged with its kind and
  id, was recorded under its id, and was returned.
\<close>

definition constructed_new ::
  "platform \<Rightarrow> (BrowserWindowOptions \<Rightarrow> jsval + BrowserWindow) \<Rightarrow> string \<Rightarrow> jsnum \<Rightarrow> jsnum \<Rightarrow>
   WindowManager \<Rightarrow> world \<Rightarrow> (jsval + handle) \<times> WindowManager \<times> world \<Rightarrow> bool" where
  "constructed_new pf ctor t wd ht wm w r =
     (let opts = child_window_options t wd ht (path_join pf (dirname pf) ''childPreload.js'') (getMainWindow w);
          wid = window_id t (windowCounter wm + 1)
      in filter is_construction (events_since w (snd (snd r))) = [New_BrowserWindow opts] \<and>
         (case ctor opts of
            Inl e \<Rightarrow>
              fst r = Inl e \<and> childWindows (fst (snd r)) = childWindows wm \<and>
              windows (snd (snd r)) = windows w \<and> allocated (snd (snd r)) = allocated w
          | Inr bw \<Rightarrow>
              fst r = Inr (allocated w) \<and>
              childWindows (fst (snd r)) = AList.update wid (allocated w) (childWindows wm) \<and>
              windows (snd (snd r)) = (windows w)(allocated w := bw\<lparr>windowType := Some t, windowId := Some wid\<rparr>) \<and>
              allocated (snd (snd r)) = allocated w + 1))"

text \<open>
  A dimension the validation refuses: missing, not a number or NaN (malformed), or a
  number that is at most zero.
\<close>

definition malformed_dimension :: "jsval \<Rightarrow> bool" where
  "malformed_dimension v = (case v of JNum n \<Rightarrow> n = NaN | _ \<Rightarrow> True)"

definition nonpositive_dimension :: "jsval \<Rightarrow> bool" where
  "nonpositive_dimension v = (case v of JNum n \<Rightarrow> le_zero n | _ \<Rightarrow> False)"

definition malformed_dimensions :: "jsval \<Rightarrow> bool" where
  "malformed_dimensions d =
     (\<not> truthy d \<or> malformed_dimension (get_prop d ''width'') \<or> malformed_dimension (get_prop d ''height''))"

definition invalid_dimensions :: "jsval \<Rightarrow> bool" where
  "invalid_dimensions d =
     (malformed_dimensions d \<or> nonpositive_dimension (get_prop d ''width'') \<or>
      nonpositive_dimension (get_prop d ''height''))"

text \<open>The call threw, constructed nothing and tracked nothing.\<close>

definition rejected :: "WindowManager \<Rightarrow> world \<Rightarrow> (jsval + handle) \<times> WindowManager \<times> world \<Rightarrow> bool" where
  "rejected wm w r =
     (isl (fst r) \<and>
      childWindows (fst (snd r)) = childWindows wm \<and>
      windows (snd (snd r)) = windows w \<and>
      allocated (snd (snd r)) = allocated w \<and>
      filter is_construction (events_since w (snd (snd r))) = [])"

definition thrown_message :: "(jsval + handle) \<times> WindowManager \<times> world \<Rightarrow> string option" where
  "thrown_message r = (case fst r of Inl (JErr n m s c) \<Rightarrow> Some m | _ \<Rightarrow> None)"

text \<open>A tracked entry whose window answers that it is not destroyed.\<close>

definition live :: "world \<Rightarrow> string \<times> handle \<Rightarrow> bool" where
  "live w e = (isDestroyed (windows w (snd e)) = Inr False)"

text \<open>A live entry whose \<open>close\<close> returns.\<close>

definition closes_ok :: "world \<Rightarrow> string \<times> handle \<Rightarrow> bool" where
  "closes_ok w e = (live w e \<and> close_call (windows w (snd e)) = None)"

text \<open>The handles \<open>close\<close> was called on, in order.\<close>

fun close_calls :: "event list \<Rightarrow> handle list" where
  "close_calls [] = []"
| "close_calls (Call_close h # es) = h # close_calls es"
| "close_calls (e # es) = close_calls es"

fun console_errors :: "event list \<Rightarrow> (string \<times> jsval list) list" where
  "console_errors [] = []"
| "console_errors (Console ERROR s args # es) = (s, args) # console_errors es"
| "console_errors (e # es) = console_errors es"

text \<open>
  The error lines a sweep over the entries owes: one for each entry whose liveness
  check or whose \<open>close\<close> throws, carrying what was thrown.
\<close>

fun close_failures :: "world \<Rightarrow> (string \<times> handle) list \<Rightarrow> (string \<times> jsval list) list" where
  "close_failures w [] = []"
| "close_failures w ((wid, h) # es) =
     (case isDestroyed (windows w h) of
        Inl x \<Rightarrow> [(''Failed to close window '' @ wid @ '':'', [x])]
      | Inr True \<Rightarrow> []
      | Inr False \<Rightarrow>
          (case close_call (windows w h) of
             None \<Rightarrow> []
           | Some x \<Rightarrow> [(''Failed to close window '' @ wid @ '':'', [x])]))
     @ close_failures w es"

text \<open>The plain console lines among some events, in order.\<close>

fun console_logs :: "event list \<Rightarrow> string list" where
  "console_logs [] = []"
| "console_logs (Console LOG s args # es) = s # console_logs es"
| "console_logs (e # es) = console_logs es"

text \<open>
  Three tracked windows: the first live, the second already destroyed, the third live
  with a \<open>close\<close> that throws.
\<close>

definition three_windows :: world where
  "three_windows =
     \<lparr>windows = (\<lambda>h.
        if h = 1 then (sample_window 11)\<lparr>isDestroyed := Inr True, windowType := Some ''child2''\<rparr>
        else if h = 2 then (sample_window 12)\<lparr>close_call := Some (JStr ''Close failed''), windowType := Some ''child3''\<rparr>
        else (sample_window 10)\<lparr>windowType := Some ''child1''\<rparr>),
      allocated = 3, allWindows = [0, 1, 2], events = []\<rparr>"

definition three_tracked :: WindowManager where
  "three_tracked =
     \<lparr>childWindows = [(''child1-1'', 0), (''child2-2'', 1), (''child3-3'', 2)], windowCounter = 3\<rparr>"

text \<open>The same three windows, but \<open>focus\<close> on the first one throws.\<close>

definition focus_fails :: world where
  "focus_fails = three_windows\<lparr>windows := (windows three_windows)
      (0 := (sample_window 10)\<lparr>focus_call := Some (JStr ''Object has been destroyed''), windowType := Some ''child1''\<rparr>)\<rparr>"

text \<open>The same three windows, but the liveness check of the second one throws.\<close>

definition check_throws :: world where
  "check_throws = three_windows\<lparr>windows := (windows three_windows)
      (1 := (sample_window 11)\<lparr>isDestroyed := Inl (JStr ''gone''), windowType := Some ''child2''\<rparr>)\<rparr>"

section \<open>The manager over the life of the process\<close>

text \<open>
  What can happen to a manager after \<open>new WindowManager()\<close>: a call of one of its
  three methods, the \<open>closed\<close> listener of a window firing, and the platform destroying
  a window. A run keeps, next to the manager and the world, the ids given to the windows
  it constructed, in order: a call of \<open>createChildWindow\<close> constructed a window when it
  returned a handle and the number of constructed windows grew, and the id is the
  \<open>windowId\<close> tag of that handle.
\<close>

datatype manager_op =
    Op_create jsval jsval "BrowserWindowOptions \<Rightarrow> jsval + BrowserWindow"
  | Op_closeAll
  | Op_count
  | Op_closed string string
  | Op_destroyed handle

fun step :: "platform \<Rightarrow> manager_op \<Rightarrow> WindowManager \<times> world \<times> string list \<Rightarrow> WindowManager \<times> world \<times> string list" where
  "step pf (Op_create type d ctor) (wm, w, ids) =
     (case createChildWindow pf ctor type d wm w of
        (Inl e, wm1, w1) \<Rightarrow> (wm1, w1, ids)
      | (Inr h, wm1, w1) \<Rightarrow>
          (wm1, w1,
           if allocated w1 = allocated w then ids
           else (case windowId (windows w1 h) of None \<Rightarrow> ids | Some i \<Rightarrow> ids @ [i])))"
| "step pf Op_closeAll (wm, w, ids) =
     (case closeAllChildWindows wm w of (n, wm1, w1) \<Rightarrow> (wm1, w1, ids))"
| "step pf Op_count (wm, w, ids) =
     (case getActiveWindowCount wm w of (n, wm1, w1) \<Rightarrow> (wm1, w1, ids))"
| "step pf (Op_closed t wid) (wm, w, ids) =
     (case on_closed t wid wm w of (wm1, w1) \<Rightarrow> (wm1, w1, ids))"
| "step pf (Op_destroyed h) (wm, w, ids) =
     (wm, w\<lparr>windows := (windows w)(h := (windows w h)\<lparr>isDestroyed := Inr True\<rparr>)\<rparr>, ids)"

fun run :: "platform \<Rightarrow> manager_op list \<Rightarrow> WindowManager \<times> world \<times> string list \<Rightarrow> WindowManager \<times> world \<times> string list" where
  "run pf [] s = s"
| "run pf (x # xs) s = run pf xs (step pf x s)"

definition assigned_ids :: "platform \<Rightarrow> world \<Rightarrow> manager_op list \<Rightarrow> string list" where
  "assigned_ids pf w0 ops = snd (snd (run pf ops (new_manager, w0, [])))"

text \<open>The number written after the last \<open>-\<close> of an id.\<close>

definition digit_value :: "char \<Rightarrow> nat" where
  "digit_value c = of_char c - 48"

definition nat_of_digits :: "string \<Rightarrow> nat" where
  "nat_of_digits ds = foldl (\<lambda>a c. 10 * a + digit_value c) 0 ds"

definition id_suffix :: "string \<Rightarrow> nat" where
  "id_suffix wid = nat_of_digits (rev (takeWhile (\<lambda>c. c \<noteq> CHR ''-'') (rev wid)))"

text \<open>Open \<open>child1\<close>, ask for \<open>child1\<close> again, then open \<open>child2\<close>.\<close>

definition sample_session :: "manager_op list" where
  "sample_session =
     [Op_create (JStr ''child1'') (dims 300 300) (sample_ctor 1),
      Op_create (JStr ''child1'') (dims 300 300) (sample_ctor 2),
      Op_create (JStr ''child2'') (dims 500 300) (sample_ctor 3)]"

text \<open>The ids given so far end in increasing numbers, none above the counter \<open>c\<close>.\<close>

definition ids_below :: "nat \<Rightarrow> string list \<Rightarrow> bool" where
  "ids_below c ids = (sorted_wrt (<) (map id_suffix ids) \<and> list_all (\<lambda>i. id_suffix i \<le> c) ids)"

text \<open>The two shapes of the handler's answer, and the preset size of each kind.\<close>

definition failure :: "string \<Rightarrow> ipc_response" where
  "failure msg = \<lparr>success = False, error = Some msg, resp_windowId = None\<rparr>"

definition succeeded :: "nat \<Rightarrow> ipc_response" where
  "succeeded n = \<lparr>success = True, error = None, resp_windowId = Some n\<rparr>"

definition preset :: "string \<Rightarrow> jsval" where
  "preset t =
     (if t = ''child1'' then dims 300 300
      else if t = ''child2'' then dims 500 300
      else dims 250 200)"

definition is_kind :: "string \<Rightarrow> bool" where
  "is_kind t = (t = ''child1'' \<or> t = ''child2'' \<or> t = ''child3'')"

text \<open>A name every object literal answers to through \<open>Object.prototype\<close>.\<close>

definition inherited_name :: "string \<Rightarrow> bool" where
  "inherited_name t = (t = ''__proto__'' \<or> t \<in> set object_prototype_methods)"

text \<open>A payload that is a non-null object.\<close>

definition is_object :: "jsval \<Rightarrow> bool" where
  "is_object data = (truthy data \<and> typeof data = T_object)"

text \<open>The handler's answer to what \<open>createChildWindow\<close> returned or threw.\<close>

definition answer_of :: "world \<Rightarrow> jsval + handle \<Rightarrow> ipc_response" where
  "answer_of w1 r =
     (case r of
        Inl e \<Rightarrow> failure (errorMessage_of e)
      | Inr h \<Rightarrow> succeeded (win_id (windows w1 h)))"

section \<open>The child-window bridge\<close>

text \<open>
  What reading \<open>globalThis.location\<close> gives in a child window: the read throws, there
  is no location, or there is one with its \<open>search\<close> and \<open>href\<close> strings.
  \<open>URLSearchParams\<close> belongs to the platform: \<open>usp search name\<close> stands for
  \<open>new URLSearchParams(search).get(name)\<close>, \<open>None\<close> for \<open>null\<close>.
\<close>

datatype location_read = Read_throws jsval | No_location | Location string string

record window_info =
  info_type :: "string option"
  info_url :: string
  info_timestamp :: string

definition getWindowType :: "(string \<Rightarrow> string \<Rightarrow> string option) \<Rightarrow> location_read \<Rightarrow> string option" where
  "getWindowType usp loc =
     (case loc of
        Read_throws e \<Rightarrow> None
      | No_location \<Rightarrow> usp [] ''type''
      | Location search href \<Rightarrow> usp (if search = [] then [] else search) ''type'')"

definition getCurrentUrl :: "location_read \<Rightarrow> string" where
  "getCurrentUrl loc =
     (case loc of
        Read_throws e \<Rightarrow> ''unknown''
      | No_location \<Rightarrow> ''unknown''
      | Location search href \<Rightarrow> (if href = [] then ''unknown'' else href))"

definition getWindowInfo ::
  "(string \<Rightarrow> string \<Rightarrow> string option) \<Rightarrow> string \<Rightarrow> location_read \<Rightarrow> window_info" where
  "getWindowInfo usp now loc =
     \<lparr>info_type = getWindowType usp loc, info_url = getCurrentUrl loc, info_timestamp = now\<rparr>"

section \<open>The error classifier and the retry controller\<close>

record AppError =
  code :: jsval
  message :: jsval
  details :: "jsval option"
  timestamp :: string
  context_tag :: "string option"

record ErrorState =
  hasError :: bool
  last_error :: "AppError option"
  retryCount :: nat
  lastRetryAt :: "string option"

datatype log_level = L_info | L_warn | L_error | L_debug

text \<open>A call of the logger: level, message, data (\<open>JUndefined\<close> when none), context.\<close>

datatype log_call = Logged log_level string jsval "string option"

text \<open>
  \<open>createAppError\<close>. \<open>now\<close> is \<open>new Date().toISOString()\<close> at the call. \<open>a || b\<close>
  is \<open>a\<close> when \<open>a\<close> is truthy and \<open>b\<close> otherwise.
\<close>

definition js_or :: "jsval \<Rightarrow> jsval \<Rightarrow> jsval" where
  "js_or a b = (if truthy a then a else b)"

definition of_result :: "string option \<Rightarrow> jsval" where
  "of_result r = (case r of None \<Rightarrow> JUndefined | Some s \<Rightarrow> JStr s)"

definition createAppError :: "platform \<Rightarrow> string \<Rightarrow> jsval \<Rightarrow> string option \<Rightarrow> AppError" where
  "createAppError pf now e ctx =
     (case e of
        JErr n m s c \<Rightarrow>
          \<lparr>code = js_or (JStr n) (JStr ''UnknownError''), message = JStr m,
           details = Some (JObj [(''stack'', s), (''cause'', c)]),
           timestamp = now, context_tag = ctx\<rparr>
      | JStr s \<Rightarrow>
          \<lparr>code = JStr ''StringError'', message = JStr s, details = None,
           timestamp = now, context_tag = ctx\<rparr>
      | _ \<Rightarrow>
          if truthy e \<and> typeof e = T_object
          then \<lparr>code = js_or (get_prop e ''code'') (js_or (get_prop e ''name'') (JStr ''ObjectError'')),
                message = js_or (get_prop e ''message'') (of_result (JSON_stringify pf e)),
                details = Some e, timestamp = now, context_tag = ctx\<rparr>
          else \<lparr>code = JStr ''UnknownError'', message = JStr ''An unknown error occurred'',
                details = Some e, timestamp = now, context_tag = ctx\<rparr>)"

definition of_context :: "string option \<Rightarrow> jsval" where
  "of_context ctx = (case ctx of None \<Rightarrow> JUndefined | Some s \<Rightarrow> JStr s)"

definition of_details :: "jsval option \<Rightarrow> jsval" where
  "of_details d = (case d of None \<Rightarrow> JUndefined | Some v \<Rightarrow> v)"

text \<open>The state of one controller: its \<open>errorState\<close> and the logger calls it made.\<close>

type_synonym controller = "ErrorState \<times> log_call list"

definition initial_state :: ErrorState where
  "initial_state = \<lparr>hasError = False, last_error = None, retryCount = 0, lastRetryAt = None\<rparr>"

definition handleError :: "platform \<Rightarrow> string \<Rightarrow> jsval \<Rightarrow> string option \<Rightarrow> controller \<Rightarrow> controller" where
  "handleError pf now e ctx s =
     (let appError = createAppError pf now e ctx
      in (\<lparr>hasError = True, last_error = Some appError,
           retryCount = retryCount (fst s), lastRetryAt = lastRetryAt (fst s)\<rparr>,
          snd s @ [Logged L_error (''Error handled: '' @ template pf (message appError))
                     (JObj [(''code'', code appError), (''details'', of_details (details appError)),
                            (''context'', of_context (context_tag appError))])
                     ctx]))"

definition clearError :: "controller \<Rightarrow> controller" where
  "clearError s = (\<lparr>hasError = False, last_error = None, retryCount = 0, lastRetryAt = None\<rparr>, snd s)"

text \<open>
  \<open>maxRetries\<close> is a number (the parameter's type is \<open>number\<close>, its default 3),
  finite or not. \<open>retryCount >= maxRetries\<close> and \<open>retryCount <= maxRetries\<close>
  compare with it as doubles compare: against NaN both are false.
\<close>

fun count_reaches :: "nat \<Rightarrow> jsnum \<Rightarrow> bool" where
  "count_reaches n NaN = False"
| "count_reaches n PosInf = False"
| "count_reaches n NegInf = True"
| "count_reaches n (Fin x) = (x \<le> real n)"

fun count_within :: "nat \<Rightarrow> jsnum \<Rightarrow> bool" where
  "count_within n NaN = False"
| "count_within n PosInf = True"
| "count_within n NegInf = False"
| "count_within n (Fin x) = (real n \<le> x)"

text \<open>
  A number spliced into a template literal: its decimal digits when it is a whole
  number from 0 up to (not including) \<open>10\<^sup>2\<^sup>1\<close>, and what the platform makes of it
  otherwise.
\<close>

definition number_text :: "platform \<Rightarrow> jsnum \<Rightarrow> string" where
  "number_text pf x =
     (case x of
        Fin r \<Rightarrow>
          if 0 \<le> r \<and> r < 10 ^ 21 \<and> real (nat \<lfloor>r\<rfloor>) = r then string_of_nat (nat \<lfloor>r\<rfloor>)
          else ToString pf (JNum x)
      | _ \<Rightarrow> ToString pf (JNum x))"

text \<open>
  \<open>retry\<close>, as one render hands it out. The callback closes over the \<open>errorState\<close>
  of the render that made it: the guard, the payload of the warning and the attempt
  numbers in the log lines read that value. The updates are functional
  (\<open>setErrorState(prev => ...)\<close>, and those inside \<open>clearError\<close> and
  \<open>handleError\<close>): they apply to the state the hook holds when the call is made,
  which is \<open>s\<close>. The operation is given by how it ends: \<open>None\<close> when it returns or
  resolves, \<open>Some e\<close> when it throws or rejects with \<open>e\<close>. \<open>t1\<close> is the time stamped
  on the attempt, \<open>t2\<close> the time of the classification of a failure. Nothing else
  touches the state while the operation is awaited.
\<close>

definition retry ::
  "platform \<Rightarrow> jsnum \<Rightarrow> ErrorState \<Rightarrow> string \<Rightarrow> string \<Rightarrow> jsval option \<Rightarrow> controller \<Rightarrow> controller" where
  "retry pf maxRetries errorState t1 t2 retryFn s =
     (if count_reaches (retryCount errorState) maxRetries
      then (fst s,
            snd s @ [Logged L_warn (''Maximum retry attempts ('' @ number_text pf maxRetries @ '') reached'')
                       (JObj [(''error'', (case last_error errorState of None \<Rightarrow> JUndefined | Some a \<Rightarrow> message a))])
                       None])
      else
        (let s1 = ((fst s)\<lparr>retryCount := retryCount (fst s) + 1, lastRetryAt := Some t1\<rparr>,
                   snd s @ [Logged L_info (''Retrying operation (attempt '' @ string_of_nat (retryCount errorState + 1)
                                             @ ''/'' @ number_text pf maxRetries @ '')'') JUndefined None])
         in case retryFn of
              None \<Rightarrow>
                (fst (clearError s1), snd s1 @ [Logged L_info ''Retry successful, error cleared'' JUndefined None])
            | Some retryError \<Rightarrow>
                handleError pf t2 retryError (Some ''retry-operation'')
                  (fst s1,
                   snd s1 @ [Logged L_error (''Retry attempt '' @ string_of_nat (retryCount errorState + 1) @ '' failed'')
                               (JObj [(''error'', (if instanceof_Error retryError then get_prop retryError ''message''
                                                   else retryError))])
                               None])))"

text \<open>
  The hook over its renders. \<open>held\<close> is the state \<open>useState\<close> holds, with the logger
  calls made so far; \<open>captured\<close> is the \<open>errorState\<close> that the \<open>retry\<close> handed out
  by the latest render closes over. \<open>useCallback\<close> hands out the callback of an earlier
  render until one of its dependencies
  \<open>[errorState.retryCount, maxRetries, logger, clearError, handleError]\<close> changes. Of
  these only the first ever does: the logger is one object for the whole process, and
  \<open>clearError\<close> and \<open>handleError\<close> are themselves kept by \<open>useCallback\<close> on
  dependencies that never change. \<open>maxRetries\<close> is the same at every render.
\<close>

record hook_instance =
  held :: controller
  captured :: ErrorState

definition mount :: hook_instance where
  "mount = \<lparr>held = (initial_state, []), captured = initial_state\<rparr>"

definition render :: "hook_instance \<Rightarrow> hook_instance" where
  "render h =
     (if retryCount (fst (held h)) = retryCount (captured h) then h
      else h\<lparr>captured := fst (held h)\<rparr>)"

text \<open>
  What may happen to a mounted hook: a call of one of the three functions it returned
  at its latest render, or a new render. A sequence of these is run in order.
\<close>

datatype controller_op =
    Do_handleError jsval "string option" string
  | Do_clearError
  | Do_retry "jsval option" string string
  | Do_render

fun controller_step :: "platform \<Rightarrow> jsnum \<Rightarrow> controller_op \<Rightarrow> hook_instance \<Rightarrow> hook_instance" where
  "controller_step pf maxRetries (Do_handleError e ctx now) h = h\<lparr>held := handleError pf now e ctx (held h)\<rparr>"
| "controller_step pf maxRetries Do_clearError h = h\<lparr>held := clearError (held h)\<rparr>"
| "controller_step pf maxRetries (Do_retry retryFn t1 t2) h =
     h\<lparr>held := retry pf maxRetries (captured h) t1 t2 retryFn (held h)\<rparr>"
| "controller_step pf maxRetries Do_render h = render h"

fun controller_run :: "platform \<Rightarrow> jsnum \<Rightarrow> controller_op list \<Rightarrow> hook_instance \<Rightarrow> hook_instance" where
  "controller_run pf maxRetries [] h = h"
| "controller_run pf maxRetries (x # xs) h = controller_run pf maxRetries xs (controller_step pf maxRetries x h)"

text \<open>A maximum that is a whole number, or not finite.\<close>

definition whole :: "jsnum \<Rightarrow> bool" where
  "whole x = (case x of Fin r \<Rightarrow> r = of_int \<lfloor>r\<rfloor> | _ \<Rightarrow> True)"

text \<open>The callback the hook hands out has seen the count the hook holds.\<close>

definition up_to_date :: "hook_instance \<Rightarrow> bool" where
  "up_to_date h = (retryCount (captured h) = retryCount (fst (held h)))"

fun is_retry :: "controller_op \<Rightarrow> bool" where
  "is_retry (Do_retry retryFn t1 t2) = True"
| "is_retry x = False"

text \<open>
  Sequences in which every \<open>retry\<close> goes through a callback that has seen the current
  count: a render lies between it and the last \<open>retry\<close> or \<open>clearError\<close> before
  it. The flag says whether that holds at the start.
\<close>

fun in_step :: "bool \<Rightarrow> controller_op list \<Rightarrow> bool" where
  "in_step b [] = True"
| "in_step b (Do_render # xs) = in_step True xs"
| "in_step b (Do_retry retryFn t1 t2 # xs) = (b \<and> in_step False xs)"
| "in_step b (Do_handleError e ctx now # xs) = in_step b xs"
| "in_step b (Do_clearError # xs) = in_step False xs"

text \<open>Three retries, each with an operation that fails, and a render after each.\<close>

definition three_failures :: "controller_op list" where
  "three_failures =
     [Do_retry (Some (JErr ''Error'' ''Retry 1 failed'' JUndefined JUndefined)) ''t1'' ''t2'', Do_render,
      Do_retry (Some (JErr ''Error'' ''Retry 2 failed'' JUndefined JUndefined)) ''t3'' ''t4'', Do_render,
      Do_retry (Some (JErr ''Error'' ''Retry 3 failed'' JUndefined JUndefined)) ''t5'' ''t6'']"

text \<open>Two failing retries through the callback of the mount, no render between them.\<close>

definition same_callback :: "controller_op list" where
  "same_callback =
     [Do_retry (Some (JErr ''Error'' ''Retry 1 failed'' JUndefined JUndefined)) ''t1'' ''t2'',
      Do_retry (Some (JErr ''Error'' ''Retry 2 failed'' JUndefined JUndefined)) ''t3'' ''t4'']"

text \<open>Two failing retries with a render between them.\<close>

definition two_failures :: "controller_op list" where
  "two_failures =
     [Do_retry (Some (JErr ''Error'' ''Retry 1 failed'' JUndefined JUndefined)) ''t1'' ''t2'', Do_render,
      Do_retry (Some (JErr ''Error'' ''Retry 2 failed'' JUndefined JUndefined)) ''t3'' ''t4'']"

text \<open>An error is handled, the hook renders, and \<open>retry\<close> is called.\<close>

definition error_then_retry :: "controller_op list" where
  "error_then_retry =
     [Do_handleError (JStr ''boom'') None ''t0'', Do_render, Do_retry None ''t1'' ''t2'']"

text \<open>A query-string reader for examples: \<open>name=value\<close> pairs separated by \<open>&\<close>.\<close>

fun split_on :: "char \<Rightarrow> string \<Rightarrow> string list" where
  "split_on sep [] = [[]]"
| "split_on sep (c # cs) =
     (if c = sep then [] # split_on sep cs
      else (case split_on sep cs of [] \<Rightarrow> [[c]] | p # ps \<Rightarrow> (c # p) # ps))"

definition sample_query_get :: "string \<Rightarrow> string \<Rightarrow> string option" where
  "sample_query_get search name =
     map_of (map (\<lambda>p. (takeWhile (\<lambda>c. c \<noteq> CHR ''='') p, drop 1 (dropWhile (\<lambda>c. c \<noteq> CHR ''='') p)))
               (filter (\<lambda>p. p \<noteq> []) (split_on CHR ''&'' (if take 1 search = ''?'' then drop 1 search else search))))
       name"

section \<open>The remote image fetch unit\<close>

record ApiErrorResponse =
  api_status :: nat
  api_statusText :: string
  api_message :: "string option"

text \<open>
  What \<open>fetch\<close> comes back with: a rejection (a network failure, or the abort of the
  ten-second timer, an error named \<open>AbortError\<close>), or a response with its \<open>ok\<close>
  flag, status, status text, \<open>content-type\<close> header (\<open>None\<close> for \<open>null\<close>) and the
  outcome of \<open>json()\<close>: a parsed value, or a rejection.
\<close>

record http_response =
  ok :: bool
  status :: nat
  statusText :: string
  content_type :: "string option"
  body_json :: "jsval + jsval"

datatype fetch_outcome = Fetch_rejects jsval | Fetch_resolves http_response

record dog_state =
  image_data :: "jsval option"
  loading :: bool
  error_flag :: bool
  errorDetails :: "ApiErrorResponse option"

text \<open>The hook's state together with its error controller; both log to the one logger.\<close>

type_synonym dog_api = "dog_state \<times> controller"

definition api_to_js :: "ApiErrorResponse \<Rightarrow> jsval" where
  "api_to_js a =
     JObj [(''status'', JNum (Fin (real (api_status a)))), (''statusText'', JStr (api_statusText a)),
           (''message'', of_result (api_message a))]"

text \<open>\<open>logger.apiError(operation, error, context)\<close>\<close>

definition apiError :: "string \<Rightarrow> jsval \<Rightarrow> string \<Rightarrow> controller \<Rightarrow> controller" where
  "apiError operation e ctx c =
     (fst c,
      snd c @ [Logged L_error (''API operation failed: '' @ operation)
                 (JObj [(''error'', (if instanceof_Error e then get_prop e ''message'' else e)),
                        (''stack'', (if instanceof_Error e then get_prop e ''stack'' else JUndefined))])
                 (Some ctx)])"

definition log_info :: "string \<Rightarrow> jsval \<Rightarrow> string \<Rightarrow> controller \<Rightarrow> controller" where
  "log_info msg d ctx c = (fst c, snd c @ [Logged L_info msg d (Some ctx)])"

text \<open>
  The \<open>try\<close> block of \<open>fetchDogImage\<close> after the request has come back: the thrown
  value if it throws, and the state it leaves.
\<close>

definition fetchDogImage_try :: "platform \<Rightarrow> fetch_outcome \<Rightarrow> dog_api \<Rightarrow> jsval option \<times> dog_api" where
  "fetchDogImage_try pf outcome s =
     (case outcome of
        Fetch_rejects e \<Rightarrow> (Some e, s)
      | Fetch_resolves response \<Rightarrow>
          if \<not> ok response then
            (let errorResponse =
                   \<lparr>api_status = status response, api_statusText = statusText response,
                    api_message = Some (''HTTP '' @ string_of_nat (status response) @ '': '' @ statusText response)\<rparr>
             in (Some (new_Error pf (''HTTP error! status: '' @ string_of_nat (status response) @ '' - ''
                                      @ statusText response)),
                 (fst s)\<lparr>errorDetails := Some errorResponse\<rparr>,
                 apiError ''fetch'' (api_to_js errorResponse) ''useDogApi'' (snd s)))
          else if (case content_type response of
                     None \<Rightarrow> True
                   | Some contentType \<Rightarrow> contentType = [] \<or> \<not> str_includes contentType ''application/json'') then
            (let errorResponse =
                   \<lparr>api_status = status response, api_statusText = statusText response,
                    api_message = Some ''Invalid response content type''\<rparr>
             in (Some (new_Error pf ''Invalid response content type''),
                 (fst s)\<lparr>errorDetails := Some errorResponse\<rparr>,
                 apiError ''content-type-validation'' (api_to_js errorResponse) ''useDogApi'' (snd s)))
          else
            (case body_json response of
               Inl e \<Rightarrow> (Some e, s)
             | Inr result \<Rightarrow>
                 if \<not> truthy result \<or> typeof result \<noteq> T_object
                   then (Some (new_Error pf ''Invalid response format: not an object''), s)
                 else if \<not> truthy (get_prop result ''message'') \<or> typeof (get_prop result ''message'') \<noteq> T_string
                   then (Some (new_Error pf ''Invalid response format: missing or invalid message field''), s)
                 else if \<not> truthy (get_prop result ''status'') \<or> typeof (get_prop result ''status'') \<noteq> T_string
                   then (Some (new_Error pf ''Invalid response format: missing or invalid status field''), s)
                 else
                   (None,
                    (fst s)\<lparr>image_data := Some result, error_flag := False\<rparr>,
                    log_info ''Dog API request successful''
                      (JObj [(''status'', get_prop result ''status''),
                             (''hasMessage'', JBool (truthy (get_prop result ''message'')))])
                      ''useDogApi'' (snd s))))"

text \<open>The \<open>catch\<close> block: log, classify by the shape of what was thrown, set the flag.\<close>

definition fetchDogImage_catch :: "platform \<Rightarrow> string \<Rightarrow> jsval \<Rightarrow> dog_api \<Rightarrow> dog_api" where
  "fetchDogImage_catch pf now err s =
     (let c1 = apiError ''fetchDogImage'' err ''useDogApi'' (snd s);
          s1 =
            (case err of
               JErr n m st cause \<Rightarrow>
                 if n = ''AbortError'' then
                   ((fst s)\<lparr>errorDetails := Some \<lparr>api_status = 408, api_statusText = ''Request Timeout'',
                                                  api_message = Some ''Request timed out after 10 seconds''\<rparr>\<rparr>,
                    handleError pf now (new_Error pf ''Request timed out'') (Some ''useDogApi-timeout'') c1)
                 else if str_includes m ''Failed to fetch'' then
                   ((fst s)\<lparr>errorDetails := Some \<lparr>api_status = 0, api_statusText = ''Network Error'',
                                                  api_message = Some ''Network connection failed''\<rparr>\<rparr>,
                    handleError pf now (new_Error pf ''Network connection failed'') (Some ''useDogApi-network'') c1)
                 else (fst s, handleError pf now err (Some ''useDogApi-general'') c1)
             | _ \<Rightarrow> (fst s, handleError pf now err (Some ''useDogApi-unknown'') c1))
      in ((fst s1)\<lparr>error_flag := True\<rparr>, snd s1))"

definition fetchDogImage :: "platform \<Rightarrow> string \<Rightarrow> fetch_outcome \<Rightarrow> dog_api \<Rightarrow> dog_api" where
  "fetchDogImage pf now outcome s =
     (let s1 = ((fst s)\<lparr>loading := True, error_flag := False, errorDetails := None\<rparr>,
                log_info ''Starting Dog API request'' JUndefined ''useDogApi'' (snd s));
          s2 = (case fetchDogImage_try pf outcome s1 of
                  (None, s3) \<Rightarrow> s3
                | (Some err, s3) \<Rightarrow> fetchDogImage_catch pf now err s3)
      in ((fst s2)\<lparr>loading := False\<rparr>, snd s2))"

text \<open>The \<open>error\<close> the hook returns: \<open>error || errorState.hasError\<close>.\<close>

definition public_error :: "dog_api \<Rightarrow> bool" where
  "public_error s = (error_flag (fst s) \<or> hasError (fst (snd s)))"

text \<open>The hook's state on mount.\<close>

definition mounted :: dog_api where
  "mounted = (\<lparr>image_data = None, loading = True, error_flag = False, errorDetails = None\<rparr>, (initial_state, []))"

text \<open>The message of the error the controller holds, if any.\<close>

definition classified_message :: "dog_api \<Rightarrow> jsval option" where
  "classified_message s = map_option message (last_error (fst (snd s)))"

definition classified_context :: "dog_api \<Rightarrow> string option" where
  "classified_context s = (case last_error (fst (snd s)) of None \<Rightarrow> None | Some a \<Rightarrow> context_tag a)"

text \<open>A field that is present as a non-empty string.\<close>

definition nonempty_string :: "jsval \<Rightarrow> bool" where
  "nonempty_string v = (case v of JStr s \<Rightarrow> s \<noteq> [] | _ \<Rightarrow> False)"

text \<open>A response whose \<open>content-type\<close> header mentions JSON.\<close>

definition json_content :: "http_response \<Rightarrow> bool" where
  "json_content r = (case content_type r of None \<Rightarrow> False | Some ct \<Rightarrow> str_includes ct ''application/json'')"

text \<open>The outcomes on which the fetch succeeds: every other one is a failure path.\<close>

definition succeeds :: "fetch_outcome \<Rightarrow> bool" where
  "succeeds outcome =
     (case outcome of
        Fetch_rejects e \<Rightarrow> False
      | Fetch_resolves r \<Rightarrow>
          ok r \<and> json_content r \<and>
          (case body_json r of
             Inl e \<Rightarrow> False
           | Inr result \<Rightarrow>
               is_object result \<and> nonempty_string (get_prop result ''message'') \<and>
               nonempty_string (get_prop result ''status'')))"

definition sample_response :: "bool \<Rightarrow> nat \<Rightarrow> string \<Rightarrow> string option \<Rightarrow> jsval \<Rightarrow> http_response" where
  "sample_response o_k st txt ct body =
     \<lparr>ok = o_k, status = st, statusText = txt, content_type = ct, body_json = Inr body\<rparr>"

section \<open>Properties\<close>

subsection \<open>Auxiliary facts about the window manager\<close>

lemma emit_simps [simp]:
  "windows (emit e w) = windows w"
  "allocated (emit e w) = allocated w"
  "allWindows (emit e w) = allWindows w"
  "events (emit e w) = events w @ [e]"
  by (simp_all add: emit_def)

lemma find_loop_emit [simp]: "find_loop (emit e w) t es = find_loop w t es"
  by (induction es) (auto split: sum.splits)

lemma construct_window_counter:
  "windowCounter (fst (snd (construct_window pf ctor t wid wd ht wm w))) = windowCounter wm"
  by (simp add: construct_window_def Let_def split: sum.splits)

lemma createChildWindow_try_counter:
  "windowCounter (fst (snd (createChildWindow_try pf ctor type d wm w))) = windowCounter wm + 1"
  unfolding createChildWindow_try_def Let_def
  by (simp add: construct_window_counter split: jsval.splits sum.splits option.splits bool.splits prod.splits)

lemma createChildWindow_fst:
  "fst (createChildWindow pf ctor type d wm w) = fst (createChildWindow_try pf ctor type d wm w)"
  by (simp add: createChildWindow_def split: prod.splits sum.splits)

lemma createChildWindow_manager:
  "fst (snd (createChildWindow pf ctor type d wm w)) = fst (snd (createChildWindow_try pf ctor type d wm w))"
  by (simp add: createChildWindow_def split: prod.splits sum.splits)

lemma createChildWindow_world:
  "windows (snd (snd (createChildWindow pf ctor type d wm w))) = windows (snd (snd (createChildWindow_try pf ctor type d wm w)))"
  "allocated (snd (snd (createChildWindow pf ctor type d wm w))) = allocated (snd (snd (createChildWindow_try pf ctor type d wm w)))"
  "allWindows (snd (snd (createChildWindow pf ctor type d wm w))) = allWindows (snd (snd (createChildWindow_try pf ctor type d wm w)))"
  by (simp_all add: createChildWindow_def split: prod.splits sum.splits)

lemma createChildWindow_counter:
  "windowCounter (fst (snd (createChildWindow pf ctor type d wm w))) = windowCounter wm + 1"
  by (simp add: createChildWindow_manager createChildWindow_try_counter)

lemma getMainWindow_emit [simp]: "getMainWindow (emit e w) = getMainWindow w"
  by (simp add: getMainWindow_def)

lemma find_loop_find:
  "list_all (answers w) (examined_before w t es) \<Longrightarrow>
   find_loop w t es = Inr (map_option snd (find (live_of_kind w t) es))"
  by (induction es) (auto simp: examined_before_def answers_def live_of_kind_def split: sum.splits)

lemma find_loop_throws:
  "find (\<lambda>e. \<not> answers w e) (examined_before w t es) = Some (k, h) \<Longrightarrow>
   \<exists>x. isDestroyed (windows w h) = Inl x \<and> find_loop w t es = Inl x"
  by (induction es) (auto simp: examined_before_def answers_def live_of_kind_def split: sum.splits if_splits)

lemma find_live:
  "find (live_of_kind w t) es = Some (k, h) \<Longrightarrow> isDestroyed (windows w h) = Inr False"
  by (induction es) (auto simp: live_of_kind_def split: if_splits)

lemma try_valid:
  assumes "t \<noteq> []" "valid_dimensions d wd ht" "list_all (answers w) (examined_before w t (childWindows wm))"
  shows "createChildWindow_try pf ctor (JStr t) d wm w =
     (let wm1 = wm\<lparr>windowCounter := windowCounter wm + 1\<rparr>;
          wid = window_id t (windowCounter wm + 1);
          w1 = emit (Console LOG (''Creating child window: '' @ wid) []) w
      in case find (live_of_kind w t) (childWindows wm) of
           None \<Rightarrow> construct_window pf ctor t wid wd ht wm1 w1
         | Some (k, h) \<Rightarrow>
             (let w2 = emit (Console LOG (''Window of type '' @ t @ '' already exists, bringing to front'') []) w1;
                  w3 = emit (Call_focus h) w2
              in case focus_call (windows w h) of
                   None \<Rightarrow> (Inr h, wm1, w3)
                 | Some focusError \<Rightarrow>
                     construct_window pf ctor t wid wd ht wm1
                       (emit (Console ERROR (''Failed to focus existing window: '' @ template pf focusError) []) w3)))"
  using assms
  by (auto simp: createChildWindow_try_def Let_def valid_dimensions_def findWindowByType_def
        find_loop_find window_id_def template_def dest: find_live split: option.splits)

lemma dedup_none:
  assumes "t \<noteq> []" "valid_dimensions d wd ht" "list_all (answers w) (examined_before w t (childWindows wm))"
    and "find (live_of_kind w t) (childWindows wm) = None"
  shows "constructed_new pf ctor t wd ht wm w (createChildWindow pf ctor (JStr t) d wm w)"
  using assms(4)
  by (simp add: createChildWindow_def try_valid [OF assms(1-3)] construct_window_def
        constructed_new_def events_since_def Let_def is_construction_def split: sum.splits)

lemma dedup_focus:
  assumes "t \<noteq> []" "valid_dimensions d wd ht" "list_all (answers w) (examined_before w t (childWindows wm))"
    and "find (live_of_kind w t) (childWindows wm) = Some (k, h)"
    and "focus_call (windows w h) = None"
  shows "focused_existing h wm w (createChildWindow pf ctor (JStr t) d wm w)"
  using assms(4,5)
  by (simp add: createChildWindow_def try_valid [OF assms(1-3)]
        focused_existing_def events_since_def Let_def is_construction_def)

lemma dedup_focus_throws:
  assumes "t \<noteq> []" "valid_dimensions d wd ht" "list_all (answers w) (examined_before w t (childWindows wm))"
    and "find (live_of_kind w t) (childWindows wm) = Some (k, h)"
    and "focus_call (windows w h) = Some e"
  shows "constructed_new pf ctor t wd ht wm w (createChildWindow pf ctor (JStr t) d wm w)"
  using assms(4,5)
  by (simp add: createChildWindow_def try_valid [OF assms(1-3)] construct_window_def
        constructed_new_def events_since_def Let_def is_construction_def split: sum.splits)

lemma throwing_check_propagates:
  assumes "t \<noteq> []" "valid_dimensions d wd ht"
    and "find (\<lambda>e. \<not> answers w e) (examined_before w t (childWindows wm)) = Some (k, h)"
    and "isDestroyed (windows w h) = Inl x"
  shows "fst (createChildWindow pf ctor (JStr t) d wm w) = Inl x \<and>
         rejected wm w (createChildWindow pf ctor (JStr t) d wm w)"
proof -
  from find_loop_throws [OF assms(3)] assms(4) have f: "find_loop w t (childWindows wm) = Inl x"
    by auto
  have "createChildWindow_try pf ctor (JStr t) d wm w =
          (Inl x, wm\<lparr>windowCounter := windowCounter wm + 1\<rparr>,
           emit (Console LOG (''Creating child window: '' @ window_id t (windowCounter wm + 1)) []) w)"
    using assms(1,2) f
    by (auto simp: createChildWindow_try_def Let_def valid_dimensions_def findWindowByType_def
          window_id_def template_def)
  then show ?thesis
    by (simp add: createChildWindow_def rejected_def events_since_def is_construction_def)
qed

lemma live_emit [simp]: "live (emit e w) = live w"
  by (rule ext) (simp add: live_def)

lemma closes_ok_emit [simp]: "closes_ok (emit e w) = closes_ok w"
  by (rule ext) (simp add: closes_ok_def)

lemma close_failures_emit [simp]: "close_failures (emit e w) es = close_failures w es"
  by (induction es) (auto split: sum.splits bool.splits option.splits)

lemma close_calls_append [simp]: "close_calls (xs @ ys) = close_calls xs @ close_calls ys"
  by (induction xs rule: close_calls.induct) auto

lemma console_errors_append [simp]: "console_errors (xs @ ys) = console_errors xs @ console_errors ys"
  by (induction xs rule: console_errors.induct) auto

lemma close_loop_count:
  "fst (close_loop w n es) = n + length (filter (closes_ok w) es)"
proof (induction es arbitrary: w n)
  case Nil
  then show ?case by simp
next
  case (Cons e es)
  obtain wid h where e: "e = (wid, h)" by (cases e)
  show ?case
    by (cases "isDestroyed (windows w h)")
       (auto simp: e Cons.IH Let_def closes_ok_def live_def split: bool.splits option.splits)
qed

lemma close_loop_windows:
  "windows (snd (close_loop w n es)) = windows w"
proof (induction es arbitrary: w n)
  case Nil
  then show ?case by simp
next
  case (Cons e es)
  obtain wid h where e: "e = (wid, h)" by (cases e)
  show ?case
    by (cases "isDestroyed (windows w h)")
       (auto simp: e Cons.IH Let_def split: bool.splits option.splits)
qed

lemma close_loop_rest:
  "allocated (snd (close_loop w n es)) = allocated w \<and> allWindows (snd (close_loop w n es)) = allWindows w"
proof (induction es arbitrary: w n)
  case Nil
  then show ?case by simp
next
  case (Cons e es)
  obtain wid h where e: "e = (wid, h)" by (cases e)
  show ?case
    by (cases "isDestroyed (windows w h)")
       (auto simp: e Cons.IH Let_def split: bool.splits option.splits)
qed

lemma close_loop_events:
  "\<exists>new. events (snd (close_loop w n es)) = events w @ new \<and>
         close_calls new = map snd (filter (live w) es) \<and>
         console_errors new = close_failures w es"
proof (induction es arbitrary: w n)
  case Nil
  then show ?case by simp
next
  case (Cons e es)
  obtain wid h where e: "e = (wid, h)" by (cases e)
  show ?case
  proof (cases "isDestroyed (windows w h)")
    case (Inl x)
    from Cons.IH [of "emit (Console ERROR (''Failed to close window '' @ wid @ '':'') [x]) w" n]
    show ?thesis by (auto simp: e Inl live_def)
  next
    case (Inr b)
    show ?thesis
    proof (cases b)
      case True
      from Cons.IH [of "emit (Console LOG (''Window '' @ wid @ '' already destroyed'') []) w" n]
      show ?thesis by (auto simp: e Inr True live_def)
    next
      case False
      show ?thesis
      proof (cases "close_call (windows w h)")
        case None
        from Cons.IH [of "emit (Call_close h) (emit (Console LOG (''Closing window: '' @ wid) []) w)" "n + 1"]
        show ?thesis by (auto simp: e Inr False None live_def Let_def)
      next
        case (Some x)
        from Cons.IH [of "emit (Console ERROR (''Failed to close window '' @ wid @ '':'') [x])
                           (emit (Call_close h) (emit (Console LOG (''Closing window: '' @ wid) []) w))" n]
        show ?thesis by (auto simp: e Inr False Some live_def Let_def)
      qed
    qed
  qed
qed

lemma closeAll_result:
  "fst (closeAllChildWindows wm w) = length (filter (closes_ok w) (childWindows wm))"
  "fst (snd (closeAllChildWindows wm w)) = wm\<lparr>childWindows := []\<rparr>"
  "windows (snd (snd (closeAllChildWindows wm w))) = windows w"
  using close_loop_count [of "emit (Console LOG (''Attempting to close '' @ string_of_nat (length (childWindows wm)) @ '' child windows'') []) w" 0 "childWindows wm"]
        close_loop_windows [of "emit (Console LOG (''Attempting to close '' @ string_of_nat (length (childWindows wm)) @ '' child windows'') []) w" 0 "childWindows wm"]
  by (simp_all add: closeAllChildWindows_def Let_def split_beta)

lemma closeAll_events:
  "close_calls (events_since w (snd (snd (closeAllChildWindows wm w)))) = map snd (filter (live w) (childWindows wm)) \<and>
   console_errors (events_since w (snd (snd (closeAllChildWindows wm w)))) = close_failures w (childWindows wm)"
proof -
  let ?w1 = "emit (Console LOG (''Attempting to close '' @ string_of_nat (length (childWindows wm)) @ '' child windows'') []) w"
  from close_loop_events [of ?w1 0 "childWindows wm"] obtain new where
    new: "events (snd (close_loop ?w1 0 (childWindows wm))) = events ?w1 @ new"
      "close_calls new = map snd (filter (live w) (childWindows wm))"
      "console_errors new = close_failures w (childWindows wm)"
    by auto
  show ?thesis
    using new by (simp add: closeAllChildWindows_def Let_def events_since_def split_beta)
qed

lemma console_logs_append [simp]: "console_logs (xs @ ys) = console_logs xs @ console_logs ys"
  by (induction xs rule: console_logs.induct) auto

lemma count_loop_result:
  "\<exists>w1. count_loop w a ds es =
       (a + length (filter (live w) es), ds @ map fst (filter (\<lambda>e. \<not> live w e) es), w1) \<and>
       windows w1 = windows w \<and> allocated w1 = allocated w \<and> allWindows w1 = allWindows w \<and>
       (\<exists>new. events w1 = events w @ new \<and> console_logs new = [])"
proof (induction es arbitrary: w a ds)
  case Nil
  then show ?case by simp
next
  case (Cons e es)
  obtain wid h where e: "e = (wid, h)" by (cases e)
  show ?case
  proof (cases "isDestroyed (windows w h)")
    case (Inl x)
    from Cons.IH [of "emit (Console ERROR (''Error checking window '' @ wid @ '' status:'') [x]) w" a "ds @ [wid]"]
    show ?thesis by (auto simp: e Inl live_def)
  next
    case (Inr b)
    show ?thesis
      using Cons.IH [of w a "ds @ [wid]"] Cons.IH [of w "a + 1" ds]
      by (cases b) (auto simp: e Inr live_def)
  qed
qed

lemma count_loop_all_live:
  "list_all (live w) es \<Longrightarrow> count_loop w a ds es = (a + length es, ds, w)"
  by (induction es arbitrary: a) (auto simp: live_def)

lemma cleanup_loop_result:
  "cleanup_loop wm w ds =
     (wm\<lparr>childWindows := filter (\<lambda>e. fst e \<notin> set ds) (childWindows wm)\<rparr>,
      w\<lparr>events := events w @ map (\<lambda>wid. Console LOG (''Cleaned up destroyed window: '' @ wid) []) ds\<rparr>)"
proof (induction ds arbitrary: wm w)
  case Nil
  then show ?case by simp
next
  case (Cons d ds)
  have f: "filter (\<lambda>e. fst e \<notin> set ds) (AList.delete d (childWindows wm)) =
           filter (\<lambda>e. fst e \<noteq> d \<and> fst e \<notin> set ds) (childWindows wm)"
    by (auto simp: AList.delete_eq intro: filter_cong)
  show ?case
    by (simp add: Cons.IH f emit_def)
qed

lemma filter_dead_keys:
  "distinct (map fst es) \<Longrightarrow>
   filter (\<lambda>e. fst e \<notin> fst ` {x \<in> set es. \<not> P x}) es = filter P es"
  by (rule filter_cong) (auto simp: image_iff dest: eq_key_imp_eq_value)


lemma console_logs_cleanup:
  "console_logs (map (\<lambda>x. Console LOG (f x) []) xs) = map f xs"
  by (induction xs) auto

lemma getActiveWindowCount_result:
  assumes "distinct (map fst (childWindows wm))"
  shows "fst (getActiveWindowCount wm w) = length (filter (live w) (childWindows wm))"
    and "fst (snd (getActiveWindowCount wm w)) = wm\<lparr>childWindows := filter (live w) (childWindows wm)\<rparr>"
    and "windows (snd (snd (getActiveWindowCount wm w))) = windows w"
    and "console_logs (events_since w (snd (snd (getActiveWindowCount wm w)))) =
           map (\<lambda>e. ''Cleaned up destroyed window: '' @ fst e) (filter (\<lambda>e. \<not> live w e) (childWindows wm))"
proof -
  from count_loop_result [of w 0 "[]" "childWindows wm"] obtain w1 new where
    c: "count_loop w 0 [] (childWindows wm) =
          (length (filter (live w) (childWindows wm)), map fst (filter (\<lambda>e. \<not> live w e) (childWindows wm)), w1)"
    and w1: "windows w1 = windows w" "events w1 = events w @ new" "console_logs new = []"
    by auto
  have k: "filter (\<lambda>e. fst e \<notin> fst ` {x \<in> set (childWindows wm). \<not> live w x}) (childWindows wm) =
           filter (live w) (childWindows wm)"
    using assms by (rule filter_dead_keys)
  show "fst (getActiveWindowCount wm w) = length (filter (live w) (childWindows wm))"
    by (simp add: getActiveWindowCount_def c cleanup_loop_result)
  show "fst (snd (getActiveWindowCount wm w)) = wm\<lparr>childWindows := filter (live w) (childWindows wm)\<rparr>"
    by (simp add: getActiveWindowCount_def c cleanup_loop_result k)
  show "windows (snd (snd (getActiveWindowCount wm w))) = windows w"
    by (simp add: getActiveWindowCount_def c cleanup_loop_result w1)
  show "console_logs (events_since w (snd (snd (getActiveWindowCount wm w)))) =
           map (\<lambda>e. ''Cleaned up destroyed window: '' @ fst e) (filter (\<lambda>e. \<not> live w e) (childWindows wm))"
    by (simp add: getActiveWindowCount_def c cleanup_loop_result w1 events_since_def
          console_logs_cleanup comp_def)
qed

lemma getActiveWindowCount_all_live:
  assumes "list_all (live w) es"
  shows "getActiveWindowCount (wm\<lparr>childWindows := es\<rparr>) w = (length es, wm\<lparr>childWindows := es\<rparr>, w)"
  using assms by (simp add: getActiveWindowCount_def count_loop_all_live)

lemma live_cong: "windows w1 = windows w \<Longrightarrow> live w1 = live w"
  by (rule ext) (simp add: live_def)

lemma getActiveWindowCount_again:
  assumes "distinct (map fst (childWindows wm))"
  shows "getActiveWindowCount (fst (snd (getActiveWindowCount wm w))) (snd (snd (getActiveWindowCount wm w))) =
         getActiveWindowCount wm w"
proof -
  let ?r = "getActiveWindowCount wm w"
  have l: "live (snd (snd ?r)) = live w"
    by (rule live_cong) (rule getActiveWindowCount_result(3) [OF assms])
  have "list_all (live (snd (snd ?r))) (filter (live w) (childWindows wm))"
    by (simp add: l list_all_iff)
  from getActiveWindowCount_all_live [OF this, of wm]
  have "getActiveWindowCount (fst (snd ?r)) (snd (snd ?r)) =
          (length (filter (live w) (childWindows wm)), fst (snd ?r), snd (snd ?r))"
    by (simp add: getActiveWindowCount_result(2) [OF assms])
  also have "\<dots> = ?r"
    by (simp add: getActiveWindowCount_result(1) [OF assms, symmetric])
  finally show ?thesis .
qed

lemma try_invalid:
  assumes "invalid_dimensions d"
  shows "\<exists>e. createChildWindow_try pf ctor type d wm w =
           (Inl e, wm\<lparr>windowCounter := windowCounter wm + 1\<rparr>,
            emit (Console LOG (''Creating child window: '' @ template pf type @ ''-'' @ string_of_nat (windowCounter wm + 1)) []) w)"
  using assms
  by (auto simp: createChildWindow_try_def Let_def invalid_dimensions_def malformed_dimensions_def
        malformed_dimension_def nonpositive_dimension_def split: jsval.splits)

lemma invalid_rejected:
  assumes "invalid_dimensions d"
  shows "rejected wm w (createChildWindow pf ctor type d wm w)"
proof -
  from try_invalid [OF assms] obtain e where
    "createChildWindow_try pf ctor type d wm w =
           (Inl e, wm\<lparr>windowCounter := windowCounter wm + 1\<rparr>,
            emit (Console LOG (''Creating child window: '' @ template pf type @ ''-'' @ string_of_nat (windowCounter wm + 1)) []) w)"
    by blast
  then show ?thesis
    by (simp add: createChildWindow_def rejected_def events_since_def is_construction_def)
qed

lemma invalid_message:
  assumes "invalid_dimensions d" "t \<noteq> []"
  shows "thrown_message (createChildWindow pf ctor (JStr t) d wm w) =
     Some (if malformed_dimensions d
           then ''Invalid dimensions: '' @ template_opt (JSON_stringify pf d)
           else ''Invalid dimensions: width and height must be positive numbers'')"
  using assms
  by (auto simp: createChildWindow_def createChildWindow_try_def Let_def invalid_dimensions_def
        malformed_dimensions_def thrown_message_def new_Error_def
        malformed_dimension_def nonpositive_dimension_def split: jsval.splits)

subsection \<open>Bulk close\<close>

text \<open>
  Claim C4. Whatever the registry holds, \<open>closeAllChildWindows\<close> returns the number of
  windows on which \<open>close\<close> returned: \<open>close\<close> is called on exactly the entries that
  answer "not destroyed", in registry order; an entry already destroyed is skipped; an
  entry whose \<open>close\<close> (or liveness check) throws adds one error line carrying what was
  thrown and is not counted, and the sweep goes on; the registry is empty afterwards in
  every case; and with nothing tracked the result is 0.
\<close>

theorem closeAll_counts_successful_closes:
  "fst (closeAllChildWindows wm w) = length (filter (closes_ok w) (childWindows wm)) \<and>
   childWindows (fst (snd (closeAllChildWindows wm w))) = [] \<and>
   windowCounter (fst (snd (closeAllChildWindows wm w))) = windowCounter wm \<and>
   close_calls (events_since w (snd (snd (closeAllChildWindows wm w)))) =
     map snd (filter (live w) (childWindows wm)) \<and>
   console_errors (events_since w (snd (snd (closeAllChildWindows wm w)))) =
     close_failures w (childWindows wm) \<and>
   fst (closeAllChildWindows (wm\<lparr>childWindows := []\<rparr>) w) = 0"
  using closeAll_events [of w wm]
  by (simp add: closeAll_result)

text \<open>
  On three tracked windows, the second destroyed and the third with a throwing
  \<open>close\<close>: \<open>close\<close> is called on the first and third, one is counted, one error
  line is written.
\<close>

theorem closeAll_counts_successful_closes_witness:
  "fst (closeAllChildWindows three_tracked three_windows) = 1 \<and>
   childWindows (fst (snd (closeAllChildWindows three_tracked three_windows))) = [] \<and>
   close_calls (events_since three_windows (snd (snd (closeAllChildWindows three_tracked three_windows)))) = [0, 2] \<and>
   console_errors (events_since three_windows (snd (snd (closeAllChildWindows three_tracked three_windows)))) =
     [(''Failed to close window child3-3:'', [JStr ''Close failed''])]"
  using closeAll_counts_successful_closes [of three_tracked three_windows]
  by (simp add: three_tracked_def three_windows_def sample_window_def closes_ok_def live_def)

subsection \<open>Counting live windows\<close>

text \<open>
  Claim C5. On a registry (a \<open>Map\<close>, so its keys are distinct),
  \<open>getActiveWindowCount\<close> returns the number of entries whose window answers "not
  destroyed" (a check that throws counts as destroyed), leaves exactly those entries in
  the registry, writes one cleanup line per removed entry, and a second call right after
  returns the same count and changes nothing: neither the registry nor the console.
\<close>

theorem count_cleans_up:
  assumes "distinct (map fst (childWindows wm))"
  shows
   "fst (getActiveWindowCount wm w) = length (filter (live w) (childWindows wm)) \<and>
    fst (snd (getActiveWindowCount wm w)) = wm\<lparr>childWindows := filter (live w) (childWindows wm)\<rparr> \<and>
    windows (snd (snd (getActiveWindowCount wm w))) = windows w \<and>
    console_logs (events_since w (snd (snd (getActiveWindowCount wm w)))) =
      map (\<lambda>e. ''Cleaned up destroyed window: '' @ fst e) (filter (\<lambda>e. \<not> live w e) (childWindows wm)) \<and>
    getActiveWindowCount (fst (snd (getActiveWindowCount wm w))) (snd (snd (getActiveWindowCount wm w))) =
      getActiveWindowCount wm w"
  using getActiveWindowCount_result [OF assms, of w] getActiveWindowCount_again [OF assms, of w]
  by simp

theorem count_cleans_up_witness:
  "distinct (map fst (childWindows three_tracked)) \<and>
   fst (getActiveWindowCount three_tracked three_windows) = 2 \<and>
   childWindows (fst (snd (getActiveWindowCount three_tracked three_windows))) =
     [(''child1-1'', 0), (''child3-3'', 2)] \<and>
   console_logs (events_since three_windows (snd (snd (getActiveWindowCount three_tracked three_windows)))) =
     [''Cleaned up destroyed window: child2-2''] \<and>
   fst (getActiveWindowCount (fst (snd (getActiveWindowCount three_tracked three_windows)))
          (snd (snd (getActiveWindowCount three_tracked three_windows)))) = 2"
proof -
  let ?r = "getActiveWindowCount three_tracked three_windows"
  have h: "distinct (map fst (childWindows three_tracked))"
    by (simp add: three_tracked_def)
  note t = count_cleans_up [OF h, of three_windows]
  have a: "fst ?r = 2"
    using t by (simp add: three_tracked_def three_windows_def sample_window_def live_def)
  have b: "childWindows (fst (snd ?r)) = [(''child1-1'', 0), (''child3-3'', 2)]"
    using t by (simp add: three_tracked_def three_windows_def sample_window_def live_def)
  have c: "console_logs (events_since three_windows (snd (snd ?r))) =
             [''Cleaned up destroyed window: child2-2'']"
    using t by (simp add: three_tracked_def three_windows_def sample_window_def live_def)
  have e: "getActiveWindowCount (fst (snd ?r)) (snd (snd ?r)) = ?r"
    using t by blast
  have d: "fst (getActiveWindowCount (fst (snd ?r)) (snd (snd ?r))) = 2"
    by (simp only: e a)
  show ?thesis
    using h a b c d by simp
qed

subsection \<open>Validation of the dimensions\<close>

text \<open>
  Claim C2, as the code has it. When the dimensions are absent, or a width or height
  is missing, not a number, NaN, or a number that is at most zero (negative infinity
  included), \<open>createChildWindow\<close> throws before the constructor is called and before
  anything is tracked, whatever the kind. For a kind that is a non-empty string the
  message is \<open>Invalid dimensions: \<close> followed by the JSON text of the input when a
  field is missing, not a number or NaN, and \<open>Invalid dimensions: width and height must
  be positive numbers\<close> otherwise. Positive infinity is not refused: see the
  counterexample below.
\<close>

theorem invalid_dimensions_rejected:
  assumes "invalid_dimensions d" and "t \<noteq> []"
  shows
   "rejected wm w (createChildWindow pf ctor type d wm w) \<and>
    thrown_message (createChildWindow pf ctor (JStr t) d wm w) =
      Some (if malformed_dimensions d
            then ''Invalid dimensions: '' @ template_opt (JSON_stringify pf d)
            else ''Invalid dimensions: width and height must be positive numbers'')"
  using invalid_rejected [OF assms(1)] invalid_message [OF assms] by simp

text \<open>
  The inputs of the specification: \<open>{width:0, height:300}\<close>, \<open>{width:300,
  height:-100}\<close>, \<open>{width:NaN, height:300}\<close>, then a missing width and a width of
  negative infinity.
\<close>

theorem invalid_dimensions_rejected_witness:
  "thrown_message (createChildWindow sample_platform (sample_ctor 1) (JStr ''child1'') (dims 0 300) new_manager empty_world)
     = Some ''Invalid dimensions: width and height must be positive numbers'' \<and>
   thrown_message (createChildWindow sample_platform (sample_ctor 1) (JStr ''child1'') (dims 300 (- 100)) new_manager empty_world)
     = Some ''Invalid dimensions: width and height must be positive numbers'' \<and>
   thrown_message (createChildWindow sample_platform (sample_ctor 1) (JStr ''child1'')
       (JObj [(''width'', JNum NaN), (''height'', JNum (Fin 300))]) new_manager empty_world)
     = Some ''Invalid dimensions: {...}'' \<and>
   rejected new_manager empty_world
     (createChildWindow sample_platform (sample_ctor 1) (JStr ''child1'') (JObj [(''height'', JNum (Fin 300))]) new_manager empty_world) \<and>
   rejected new_manager empty_world
     (createChildWindow sample_platform (sample_ctor 1) (JStr ''child1'')
        (JObj [(''width'', JNum NegInf), (''height'', JNum (Fin 300))]) new_manager empty_world)"
proof -
  have n: "''child1'' \<noteq> []" by simp
  have a: "invalid_dimensions (dims 0 300)"
    by (simp add: invalid_dimensions_def malformed_dimensions_def malformed_dimension_def
          nonpositive_dimension_def dims_def)
  have b: "invalid_dimensions (dims 300 (- 100))"
    by (simp add: invalid_dimensions_def malformed_dimensions_def malformed_dimension_def
          nonpositive_dimension_def dims_def)
  have c: "invalid_dimensions (JObj [(''width'', JNum NaN), (''height'', JNum (Fin 300))])"
    by (simp add: invalid_dimensions_def malformed_dimensions_def malformed_dimension_def
          nonpositive_dimension_def)
  have d: "invalid_dimensions (JObj [(''height'', JNum (Fin 300))])"
    by (simp add: invalid_dimensions_def malformed_dimensions_def malformed_dimension_def
          nonpositive_dimension_def object_prototype_get_def object_prototype_methods_def)
  have e: "invalid_dimensions (JObj [(''width'', JNum NegInf), (''height'', JNum (Fin 300))])"
    by (simp add: invalid_dimensions_def malformed_dimensions_def malformed_dimension_def
          nonpositive_dimension_def)
  show ?thesis
    using invalid_dimensions_rejected [OF a n, of new_manager empty_world sample_platform "sample_ctor 1" "JStr ''child1''"]
      invalid_dimensions_rejected [OF b n, of new_manager empty_world sample_platform "sample_ctor 1" "JStr ''child1''"]
      invalid_dimensions_rejected [OF c n, of new_manager empty_world sample_platform "sample_ctor 1" "JStr ''child1''"]
      invalid_dimensions_rejected [OF d n, of new_manager empty_world sample_platform "sample_ctor 1" "JStr ''child1''"]
      invalid_dimensions_rejected [OF e n, of new_manager empty_world sample_platform "sample_ctor 1" "JStr ''child1''"]
    by (simp add: malformed_dimensions_def malformed_dimension_def dims_def sample_platform_def template_opt_def)
qed

text \<open>
  Claim C2 as stated also lists non-finite inputs as rejected. A width of positive
  infinity is a number, is not NaN and is not at most zero: the call goes on to the
  constructor, and with a constructor that returns a window the window is tracked.
\<close>

theorem infinite_width_counterexample:
  "fst (createChildWindow sample_platform (sample_ctor 7) (JStr ''child1'')
          (JObj [(''width'', JNum PosInf), (''height'', JNum (Fin 300))]) new_manager empty_world) = Inr 0 \<and>
   childWindows (fst (snd (createChildWindow sample_platform (sample_ctor 7) (JStr ''child1'')
          (JObj [(''width'', JNum PosInf), (''height'', JNum (Fin 300))]) new_manager empty_world))) = [(''child1-1'', 0)] \<and>
   allocated (snd (snd (createChildWindow sample_platform (sample_ctor 7) (JStr ''child1'')
          (JObj [(''width'', JNum PosInf), (''height'', JNum (Fin 300))]) new_manager empty_world))) = 1"
  by (simp add: createChildWindow_def createChildWindow_try_def construct_window_def Let_def
      new_manager_def empty_world_def sample_ctor_def findWindowByType_def template_def
      string_of_nat.simps)

subsection \<open>One window per kind\<close>

text \<open>
  Claim C3, as the code has it. \<open>findWindowByType\<close> asks every tracked window it
  passes whether it is destroyed, with nothing to catch a check that throws, so the
  claim needs those checks to answer. Take a kind \<open>t\<close> (a non-empty string),
  dimensions that pass validation, and a registry in which the liveness check of every
  window tracked ahead of the first live window of kind \<open>t\<close> (of every tracked
  window, when there is none) answers. If some tracked window is not destroyed and
  tagged \<open>t\<close>, the call focuses the first such window and returns its handle,
  constructs nothing and leaves the registry as it was. If there is none (for instance
  because the window of that kind reports itself destroyed), the constructor is called
  and its window is tracked and returned. If \<open>focus\<close> on the live window throws, the
  call also goes on to construct a new window.
\<close>

theorem dedup_by_kind:
  assumes "t \<noteq> []" and "valid_dimensions d wd ht"
    and "list_all (answers w) (examined_before w t (childWindows wm))"
  shows
   "(case find (live_of_kind w t) (childWindows wm) of
       None \<Rightarrow> constructed_new pf ctor t wd ht wm w (createChildWindow pf ctor (JStr t) d wm w)
     | Some e \<Rightarrow>
         (case focus_call (windows w (snd e)) of
            None \<Rightarrow> focused_existing (snd e) wm w (createChildWindow pf ctor (JStr t) d wm w)
          | Some x \<Rightarrow> constructed_new pf ctor t wd ht wm w (createChildWindow pf ctor (JStr t) d wm w)))"
proof (cases "find (live_of_kind w t) (childWindows wm)")
  case None
  then show ?thesis using dedup_none [OF assms None] by simp
next
  case (Some e)
  obtain k h where e: "e = (k, h)" by (cases e)
  show ?thesis
  proof (cases "focus_call (windows w h)")
    case None
    then show ?thesis
      using dedup_focus [OF assms Some [unfolded e] None] by (simp add: Some e)
  next
    case (Some x)
    then show ?thesis
      using dedup_focus_throws [OF assms \<open>find (live_of_kind w t) (childWindows wm) = Some e\<close> [unfolded e] Some]
      by (simp add: \<open>find (live_of_kind w t) (childWindows wm) = Some e\<close> e)
  qed
qed

text \<open>
  On the three sample windows: \<open>child1\<close> is live and is returned; \<open>child2\<close> is
  destroyed, so a fourth window is built; and when \<open>focus\<close> on \<open>child1\<close> throws, a
  fourth window is built and tracked under \<open>child1-4\<close>. A check that throws on a
  window tracked after the live \<open>child1\<close> is never made.
\<close>

theorem dedup_by_kind_witness:
  "fst (createChildWindow sample_platform (sample_ctor 20) (JStr ''child1'') (dims 400 400) three_tracked three_windows) = Inr 0 \<and>
   allocated (snd (snd (createChildWindow sample_platform (sample_ctor 20) (JStr ''child1'') (dims 400 400) three_tracked three_windows))) = 3 \<and>
   fst (createChildWindow sample_platform (sample_ctor 20) (JStr ''child2'') (dims 500 300) three_tracked three_windows) = Inr 3 \<and>
   allocated (snd (snd (createChildWindow sample_platform (sample_ctor 20) (JStr ''child2'') (dims 500 300) three_tracked three_windows))) = 4 \<and>
   fst (createChildWindow sample_platform (sample_ctor 20) (JStr ''child1'') (dims 400 400) three_tracked focus_fails) = Inr 3 \<and>
   childWindows (fst (snd (createChildWindow sample_platform (sample_ctor 20) (JStr ''child1'') (dims 400 400) three_tracked focus_fails)))
     = [(''child1-1'', 0), (''child2-2'', 1), (''child3-3'', 2), (''child1-4'', 3)] \<and>
   fst (createChildWindow sample_platform (sample_ctor 20) (JStr ''child1'') (dims 400 400) three_tracked check_throws) = Inr 0"
proof -
  have n1: "''child1'' \<noteq> []" and n2: "''child2'' \<noteq> []" by simp_all
  have v1: "valid_dimensions (dims 400 400) (Fin 400) (Fin 400)"
    by (simp add: valid_dimensions_def dims_def)
  have v2: "valid_dimensions (dims 500 300) (Fin 500) (Fin 300)"
    by (simp add: valid_dimensions_def dims_def)
  have a1: "list_all (answers three_windows) (examined_before three_windows ''child1'' (childWindows three_tracked))"
    by (simp add: examined_before_def live_of_kind_def answers_def three_windows_def three_tracked_def sample_window_def)
  have a1': "list_all (answers three_windows) (examined_before three_windows ''child2'' (childWindows three_tracked))"
    by (simp add: examined_before_def live_of_kind_def answers_def three_windows_def three_tracked_def sample_window_def)
  have a2: "list_all (answers focus_fails) (examined_before focus_fails ''child1'' (childWindows three_tracked))"
    by (simp add: examined_before_def live_of_kind_def answers_def focus_fails_def three_windows_def three_tracked_def sample_window_def)
  have a3: "list_all (answers check_throws) (examined_before check_throws ''child1'' (childWindows three_tracked))"
    by (simp add: examined_before_def live_of_kind_def answers_def check_throws_def three_windows_def three_tracked_def sample_window_def)
  have f4: "find (live_of_kind check_throws ''child1'') (childWindows three_tracked) = Some (''child1-1'', 0)"
    by (simp add: live_of_kind_def check_throws_def three_windows_def three_tracked_def sample_window_def)
  have c4: "focus_call (windows check_throws 0) = None"
    by (simp add: check_throws_def three_windows_def sample_window_def)
  have f1: "find (live_of_kind three_windows ''child1'') (childWindows three_tracked) = Some (''child1-1'', 0)"
    by (simp add: live_of_kind_def three_windows_def three_tracked_def sample_window_def)
  have f2: "find (live_of_kind three_windows ''child2'') (childWindows three_tracked) = None"
    by (simp add: live_of_kind_def three_windows_def three_tracked_def sample_window_def)
  have f3: "find (live_of_kind focus_fails ''child1'') (childWindows three_tracked) = Some (''child1-1'', 0)"
    by (simp add: live_of_kind_def focus_fails_def three_windows_def three_tracked_def sample_window_def)
  have c1: "focus_call (windows three_windows 0) = None"
    by (simp add: three_windows_def sample_window_def)
  have c3: "focus_call (windows focus_fails 0) = Some (JStr ''Object has been destroyed'')"
    by (simp add: focus_fails_def three_windows_def sample_window_def)
  have al: "allocated three_windows = 3" "allocated focus_fails = 3" "windowCounter three_tracked = 3"
    by (simp_all add: focus_fails_def three_windows_def three_tracked_def)
  have w4: "window_id ''child1'' 4 = ''child1-4''"
    by (simp add: window_id_def string_of_nat.simps)
  have cw: "childWindows three_tracked = [(''child1-1'', 0), (''child2-2'', 1), (''child3-3'', 2)]"
    by (simp add: three_tracked_def)
  from dedup_by_kind [OF n1 v1 a1, of sample_platform "sample_ctor 20"]
  have r1: "focused_existing 0 three_tracked three_windows
              (createChildWindow sample_platform (sample_ctor 20) (JStr ''child1'') (dims 400 400) three_tracked three_windows)"
    by (simp add: f1 c1)
  from dedup_by_kind [OF n2 v2 a1', of sample_platform "sample_ctor 20"]
  have r2: "constructed_new sample_platform (sample_ctor 20) ''child2'' (Fin 500) (Fin 300) three_tracked three_windows
              (createChildWindow sample_platform (sample_ctor 20) (JStr ''child2'') (dims 500 300) three_tracked three_windows)"
    by (simp add: f2)
  from dedup_by_kind [OF n1 v1 a2, of sample_platform "sample_ctor 20"]
  have r3: "constructed_new sample_platform (sample_ctor 20) ''child1'' (Fin 400) (Fin 400) three_tracked focus_fails
              (createChildWindow sample_platform (sample_ctor 20) (JStr ''child1'') (dims 400 400) three_tracked focus_fails)"
    by (simp add: f3 c3)
  from dedup_by_kind [OF n1 v1 a3, of sample_platform "sample_ctor 20"]
  have r4: "focused_existing 0 three_tracked check_throws
              (createChildWindow sample_platform (sample_ctor 20) (JStr ''child1'') (dims 400 400) three_tracked check_throws)"
    by (simp add: f4 c4)
  show ?thesis
    using r1 r2 r3 r4
    by (simp add: focused_existing_def constructed_new_def Let_def sample_ctor_def al w4 cw)
qed

text \<open>
  Claim C3 as stated asks only for a tracked window of the kind that is not destroyed.
  Here \<open>child3\<close> has one, with a \<open>focus\<close> that returns, but the window tracked
  ahead of it throws from its liveness check: the call throws what the check threw,
  focuses nothing and builds nothing. And with every check answering and \<open>child1\<close>
  live, a call with a width of 0 is refused by the validation, which comes first.
\<close>

theorem throwing_check_counterexample:
  "find (live_of_kind check_throws ''child3'') (childWindows three_tracked) = Some (''child3-3'', 2) \<and>
   focus_call (windows check_throws 2) = None \<and>
   fst (createChildWindow sample_platform (sample_ctor 20) (JStr ''child3'') (dims 250 200) three_tracked check_throws)
     = Inl (JStr ''gone'') \<and>
   allocated (snd (snd (createChildWindow sample_platform (sample_ctor 20) (JStr ''child3'') (dims 250 200) three_tracked check_throws))) = 3 \<and>
   Call_focus 2 \<notin> set (events (snd (snd (createChildWindow sample_platform (sample_ctor 20) (JStr ''child3'') (dims 250 200) three_tracked check_throws)))) \<and>
   find (live_of_kind three_windows ''child1'') (childWindows three_tracked) = Some (''child1-1'', 0) \<and>
   thrown_message (createChildWindow sample_platform (sample_ctor 20) (JStr ''child1'') (dims 0 300) three_tracked three_windows)
     = Some ''Invalid dimensions: width and height must be positive numbers''"
  by (simp add: createChildWindow_def createChildWindow_try_def Let_def findWindowByType_def
      check_throws_def three_windows_def three_tracked_def sample_window_def live_of_kind_def dims_def
      template_def emit_def thrown_message_def new_Error_def)

subsection \<open>The id counter\<close>

lemma digit_table:
  "list_all (\<lambda>n. digit_value (''0123456789'' ! n) = n \<and> ''0123456789'' ! n \<noteq> CHR ''-'') [0..<10]"
  by (simp add: digit_value_def upt_rec)

lemma digit_facts:
  assumes "n < 10"
  shows "digit_value (''0123456789'' ! n) = n \<and> ''0123456789'' ! n \<noteq> CHR ''-''"
proof -
  from assms have "n \<in> set [0..<10]" by simp
  with digit_table show ?thesis unfolding list_all_iff by blast
qed

lemma nat_of_digits_snoc: "nat_of_digits (ds @ [c]) = 10 * nat_of_digits ds + digit_value c"
  by (simp add: nat_of_digits_def)

lemma nat_of_digits_string_of_nat: "nat_of_digits (string_of_nat n) = n"
proof (induction n rule: string_of_nat.induct)
  case (1 n)
  show ?case
  proof (cases "n < 10")
    case True
    then show ?thesis
      using digit_facts [of n] by (subst string_of_nat.simps) (simp add: nat_of_digits_def)
  next
    case False
    have m: "n mod 10 < 10" by simp
    from False 1 have ih: "nat_of_digits (string_of_nat (n div 10)) = n div 10" by simp
    show ?thesis
      using False digit_facts [OF m] ih
      by (subst string_of_nat.simps) (simp add: nat_of_digits_snoc)
  qed
qed

lemma no_dash_string_of_nat: "CHR ''-'' \<notin> set (string_of_nat n)"
proof (induction n rule: string_of_nat.induct)
  case (1 n)
  show ?case
  proof (cases "n < 10")
    case True
    then show ?thesis
      using digit_facts [of n] by (subst string_of_nat.simps) auto
  next
    case False
    have m: "n mod 10 < 10" by simp
    from False 1 have ih: "CHR ''-'' \<notin> set (string_of_nat (n div 10))" by simp
    show ?thesis
      using False digit_facts [OF m] ih
      by (subst string_of_nat.simps) auto
  qed
qed

lemma id_suffix_window_id: "id_suffix (window_id t n) = n"
proof -
  have "takeWhile (\<lambda>c. c \<noteq> CHR ''-'') (rev (string_of_nat n) @ CHR ''-'' # rev t) = rev (string_of_nat n)"
    using no_dash_string_of_nat [of n] by (subst takeWhile_append2) auto
  then show ?thesis
    by (simp add: id_suffix_def window_id_def nat_of_digits_string_of_nat)
qed

lemma construct_window_id:
  "construct_window pf ctor t wid wd ht wm w = (r, wm1, w1) \<Longrightarrow>
   allocated w1 = allocated w \<or> (\<exists>h. r = Inr h \<and> windowId (windows w1 h) = Some wid)"
  by (auto simp: construct_window_def Let_def split: sum.splits)

lemma createChildWindow_try_id:
  assumes "createChildWindow_try pf ctor type d wm w = (r, wm1, w1)"
  shows "allocated w1 = allocated w \<or>
         (\<exists>h t. r = Inr h \<and> windowId (windows w1 h) = Some (window_id t (windowCounter wm + 1)))"
proof (cases type)
  case (JStr t)
  show ?thesis
  proof (cases "t \<noteq> [] \<and> truthy d")
    case False
    then show ?thesis using assms by (auto simp: createChildWindow_try_def Let_def JStr split: if_splits)
  next
    case True
    show ?thesis
    proof (cases "get_prop d ''width''")
      case (JNum wd)
      show ?thesis
      proof (cases "get_prop d ''height''")
        case ht: (JNum ht)
        show ?thesis
          using assms True
          by (auto simp: createChildWindow_try_def Let_def JStr JNum ht window_id_def template_def
                split: if_splits sum.splits option.splits bool.splits
                dest!: construct_window_id)
      qed (use assms True in \<open>auto simp: createChildWindow_try_def Let_def JStr JNum split: if_splits\<close>)
    qed (use assms True in \<open>auto simp: createChildWindow_try_def Let_def JStr split: if_splits\<close>)
  qed
qed (use assms in \<open>auto simp: createChildWindow_try_def Let_def\<close>)

lemma createChildWindow_id:
  assumes "createChildWindow pf ctor type d wm w = (r, wm1, w1)"
  shows "windowCounter wm1 = windowCounter wm + 1 \<and>
         (allocated w1 = allocated w \<or>
          (\<exists>h t. r = Inr h \<and> windowId (windows w1 h) = Some (window_id t (windowCounter wm + 1))))"
proof -
  obtain r0 wm0 w0 where t: "createChildWindow_try pf ctor type d wm w = (r0, wm0, w0)"
    by (cases "createChildWindow_try pf ctor type d wm w") auto
  from createChildWindow_try_id [OF t] createChildWindow_counter [of pf ctor type d wm w] assms t
  show ?thesis
    by (auto simp: createChildWindow_def split: sum.splits)
qed

lemma ids_below_mono: "ids_below c ids \<Longrightarrow> c \<le> c1 \<Longrightarrow> ids_below c1 ids"
  by (auto simp: ids_below_def list_all_iff)

lemma ids_below_snoc: "ids_below c ids \<Longrightarrow> ids_below (c + 1) (ids @ [window_id t (c + 1)])"
  by (auto simp: ids_below_def list_all_iff sorted_wrt_append id_suffix_window_id)

lemma getActiveWindowCount_counter:
  "windowCounter (fst (snd (getActiveWindowCount wm w))) = windowCounter wm"
  by (simp add: getActiveWindowCount_def cleanup_loop_result split_beta)

lemma step_ids_below:
  assumes "ids_below (windowCounter wm) ids" and "step pf x (wm, w, ids) = (wm1, w1, ids1)"
  shows "ids_below (windowCounter wm1) ids1"
proof (cases x)
  case (Op_create type d ctor)
  obtain r wm2 w2 where c: "createChildWindow pf ctor type d wm w = (r, wm2, w2)"
    by (cases "createChildWindow pf ctor type d wm w") auto
  from createChildWindow_id [OF c] have k: "windowCounter wm2 = windowCounter wm + 1"
    and i: "allocated w2 = allocated w \<or>
          (\<exists>h t. r = Inr h \<and> windowId (windows w2 h) = Some (window_id t (windowCounter wm + 1)))"
    by auto
  have m: "ids_below (windowCounter wm + 1) ids"
    using assms(1) by (rule ids_below_mono) simp
  have e: "wm1 = wm2"
    using assms(2) by (auto simp: Op_create c split: sum.splits)
  have "ids1 = ids \<or> (\<exists>t. ids1 = ids @ [window_id t (windowCounter wm + 1)])"
    using assms(2) i by (auto simp: Op_create c split: sum.splits if_splits option.splits)
  then show ?thesis
  proof
    assume "ids1 = ids"
    then show ?thesis using m by (simp add: e k)
  next
    assume "\<exists>t. ids1 = ids @ [window_id t (windowCounter wm + 1)]"
    then obtain t where "ids1 = ids @ [window_id t (windowCounter wm + 1)]" ..
    then show ?thesis using ids_below_snoc [OF assms(1), of t] by (simp add: e k)
  qed
next
  case Op_closeAll
  then show ?thesis
    using assms closeAll_result(2) [of wm w] by (auto split: prod.splits)
next
  case Op_count
  then show ?thesis
    using assms getActiveWindowCount_counter [of wm w] by (auto split: prod.splits)
next
  case (Op_closed t wid)
  then show ?thesis using assms by (auto simp: on_closed_def)
next
  case (Op_destroyed h)
  then show ?thesis using assms by auto
qed

lemma run_ids_below:
  "ids_below (windowCounter (fst s)) (snd (snd s)) \<Longrightarrow>
   ids_below (windowCounter (fst (run pf ops s))) (snd (snd (run pf ops s)))"
proof (induction ops arbitrary: s)
  case Nil
  then show ?case by simp
next
  case (Cons x xs)
  obtain wm w ids where s: "s = (wm, w, ids)" by (cases s) auto
  obtain wm1 w1 ids1 where t: "step pf x (wm, w, ids) = (wm1, w1, ids1)"
    by (cases "step pf x (wm, w, ids)") auto
  from Cons.prems s have "ids_below (windowCounter wm) ids" by simp
  from step_ids_below [OF this t] have "ids_below (windowCounter (fst (wm1, w1, ids1))) (snd (snd (wm1, w1, ids1)))"
    by simp
  from Cons.IH [OF this] show ?case by (simp add: s t)
qed

lemma assigned_ids_increasing: "sorted_wrt (<) (map id_suffix (assigned_ids pf w0 ops))"
  using run_ids_below [of "(new_manager, w0, [])" pf ops]
  by (simp add: assigned_ids_def ids_below_def)

lemma assigned_ids_distinct: "distinct (assigned_ids pf w0 ops)"
proof -
  have "distinct (map id_suffix (assigned_ids pf w0 ops))"
    using assigned_ids_increasing [of pf w0 ops] by (simp add: strict_sorted_iff)
  then show ?thesis by (simp add: distinct_map)
qed


lemma sample_session_ids: "assigned_ids sample_platform empty_world sample_session = [''child1-1'', ''child2-3'']"
  by (simp add: assigned_ids_def sample_session_def createChildWindow_def createChildWindow_try_def
      construct_window_def Let_def new_manager_def empty_world_def sample_ctor_def sample_window_def
      findWindowByType_def template_def dims_def string_of_nat.simps)

lemma sample_suffixes: "map id_suffix [''child1-1'', ''child2-3''] = [1, 3]"
  by (simp add: id_suffix_def nat_of_digits_def digit_value_def)

text \<open>
  Claim C9. Every call of \<open>createChildWindow\<close> leaves the counter exactly one higher,
  whatever its arguments and however it ends: thrown out by validation, answered with
  an existing window, or with a new one. (The counter is a JavaScript number, exact far
  beyond any number of calls a process makes; it is modelled as a natural number.) So
  over any sequence of operations on a fresh manager, the numbers that end the ids of
  the windows constructed are strictly increasing and no id is given twice. They need
  not be consecutive: opening \<open>child1\<close>, asking for \<open>child1\<close> again and opening
  \<open>child2\<close> gives the ids \<open>child1-1\<close> and \<open>child2-3\<close>.
\<close>

theorem counter_steps_ids_increase:
  "windowCounter (fst (snd (createChildWindow pf ctor type d wm w))) = windowCounter wm + 1 \<and>
   sorted_wrt (<) (map id_suffix (assigned_ids pf w0 ops)) \<and>
   distinct (assigned_ids pf w0 ops) \<and>
   map id_suffix (assigned_ids sample_platform empty_world sample_session) = [1, 3]"
  using createChildWindow_counter [of pf ctor type d wm w] assigned_ids_increasing [of pf w0 ops]
    assigned_ids_distinct [of pf w0 ops] sample_suffixes
  by (simp add: sample_session_ids)

text \<open>
  A call refused for a zero width still moves the counter from 0 to 1, and the sample
  session assigns \<open>child1-1\<close> and \<open>child2-3\<close>.
\<close>

theorem counter_steps_ids_increase_witness:
  "windowCounter (fst (snd (createChildWindow sample_platform (sample_ctor 1) (JStr ''child1'') (dims 0 300)
      new_manager empty_world))) = 1 \<and>
   sorted_wrt (<) (map id_suffix [''child1-1'', ''child2-3'']) \<and>
   distinct [''child1-1'', ''child2-3'']"
  using counter_steps_ids_increase [of sample_platform "sample_ctor 1" "JStr ''child1''" "dims 0 300"
      new_manager empty_world empty_world sample_session]
  by (simp add: sample_session_ids new_manager_def)

subsection \<open>The \<open>open-child-window\<close> handler\<close>

lemma config_lookup:
  "get_prop CHILD_WINDOW_CONFIGS t =
     (if is_kind t then preset t else object_prototype_get t)"
  by (simp add: CHILD_WINDOW_CONFIGS_def is_kind_def preset_def)

lemma truthy_dims [simp]: "truthy (dims a b)"
  by (simp add: dims_def)

lemma truthy_preset [simp]: "truthy (preset t)"
  by (simp add: preset_def)

lemma config_keys: "join '', '' (object_keys CHILD_WINDOW_CONFIGS) = ''child1, child2, child3''"
  by (simp add: CHILD_WINDOW_CONFIGS_def object_keys_def)

lemma handler_not_object:
  "\<not> is_object data \<Longrightarrow>
   open_child_window pf ctor wmo w data =
     (failure ''Invalid request data: expected object with type property'', wmo,
      emit (Console ERROR ''Failed to create child window:''
              [JStr ''Invalid request data: expected object with type property'',
               new_Error pf ''Invalid request data: expected object with type property'']) w)"
  by (auto simp: open_child_window_def open_child_window_try_def is_object_def failure_def
        errorMessage_of_def new_Error_def)

lemma handler_bad_type:
  "is_object data \<Longrightarrow> typeof (get_prop data ''type'') \<noteq> T_string \<or> get_prop data ''type'' = JStr [] \<Longrightarrow>
   fst (open_child_window pf ctor wmo w data) =
     failure ''Invalid child window type: type must be a non-empty string'' \<and>
   fst (snd (open_child_window pf ctor wmo w data)) = wmo"
  by (cases "get_prop data ''type''")
     (auto simp: open_child_window_def open_child_window_try_def is_object_def failure_def
        errorMessage_of_def new_Error_def)

lemma handler_unknown_type:
  "is_object data \<Longrightarrow> get_prop data ''type'' = JStr t \<Longrightarrow> t \<noteq> [] \<Longrightarrow> \<not> is_kind t \<Longrightarrow>
   \<not> inherited_name t \<Longrightarrow>
   fst (open_child_window pf ctor wmo w data) =
     failure (''Invalid child window type: '' @ t @ ''. Valid types are: child1, child2, child3'') \<and>
   fst (snd (open_child_window pf ctor wmo w data)) = wmo"
  by (simp add: open_child_window_def open_child_window_try_def is_object_def failure_def
        errorMessage_of_def new_Error_def config_lookup config_keys object_prototype_get_def
        inherited_name_def)

lemma handler_uninitialised:
  "is_object data \<Longrightarrow> get_prop data ''type'' = JStr t \<Longrightarrow> is_kind t \<Longrightarrow>
   fst (open_child_window pf ctor None w data) = failure ''Window manager not initialized''"
  by (auto simp: open_child_window_def open_child_window_try_def is_object_def failure_def
        errorMessage_of_def new_Error_def config_lookup is_kind_def)

lemma handler_delegates:
  assumes "is_object data" "get_prop data ''type'' = JStr t" "is_kind t"
  shows "fst (open_child_window pf ctor (Some wm) w data) =
           answer_of (snd (snd (createChildWindow pf ctor (JStr t) (preset t) wm w)))
             (fst (createChildWindow pf ctor (JStr t) (preset t) wm w)) \<and>
         fst (snd (open_child_window pf ctor (Some wm) w data)) =
           Some (fst (snd (createChildWindow pf ctor (JStr t) (preset t) wm w))) \<and>
         windows (snd (snd (open_child_window pf ctor (Some wm) w data))) =
           windows (snd (snd (createChildWindow pf ctor (JStr t) (preset t) wm w)))"
proof -
  have n: "t \<noteq> []" using assms(3) by (auto simp: is_kind_def)
  obtain r wm1 w1 where c: "createChildWindow pf ctor (JStr t) (preset t) wm w = (r, wm1, w1)"
    by (cases "createChildWindow pf ctor (JStr t) (preset t) wm w") auto
  show ?thesis
    using assms n
    by (cases r)
       (simp_all add: open_child_window_def open_child_window_try_def is_object_def
        config_lookup c answer_of_def failure_def succeeded_def)
qed

lemma handler_total:
  "(\<exists>n. fst (open_child_window pf ctor wmo w data) = succeeded n) \<or>
   (\<exists>m. fst (open_child_window pf ctor wmo w data) = failure m)"
  by (cases "open_child_window_try pf ctor wmo w data" rule: prod_cases3)
     (auto simp: open_child_window_def failure_def succeeded_def split: sum.splits)

text \<open>
  Claim C1, as the code has it. For every payload the handler answers with an envelope
  and lets nothing escape. A payload that is null or not an object is answered with
  \<open>Invalid request data: expected object with type property\<close>. An object whose
  \<open>type\<close> is missing, not a string, or the empty string is answered with \<open>Invalid
  child window type: type must be a non-empty string\<close>. A non-empty string that is not
  one of the three kinds, and not a name an object literal inherits, is answered with
  \<open>Invalid child window type: <type>. Valid types are: child1, child2, child3\<close>. A
  kind is handed to \<open>createChildWindow\<close> with its preset size (300x300, 500x300,
  250x200): a returned window gives \<open>{success: true, windowId}\<close> with the window's
  \<open>id\<close>, a thrown value gives \<open>{success: false, error}\<close> with its message; with no
  manager yet the answer is \<open>Window manager not initialized\<close>.
\<close>

theorem open_child_window_answers:
  "(\<not> is_object data \<longrightarrow>
      fst (open_child_window pf ctor wmo w data) =
        failure ''Invalid request data: expected object with type property'' \<and>
      fst (snd (open_child_window pf ctor wmo w data)) = wmo) \<and>
   (is_object data \<and> (typeof (get_prop data ''type'') \<noteq> T_string \<or> get_prop data ''type'' = JStr []) \<longrightarrow>
      fst (open_child_window pf ctor wmo w data) =
        failure ''Invalid child window type: type must be a non-empty string'' \<and>
      fst (snd (open_child_window pf ctor wmo w data)) = wmo) \<and>
   (is_object data \<and> get_prop data ''type'' = JStr t \<and> t \<noteq> [] \<and> \<not> is_kind t \<and> \<not> inherited_name t \<longrightarrow>
      fst (open_child_window pf ctor wmo w data) =
        failure (''Invalid child window type: '' @ t @ ''. Valid types are: child1, child2, child3'') \<and>
      fst (snd (open_child_window pf ctor wmo w data)) = wmo) \<and>
   (is_object data \<and> get_prop data ''type'' = JStr t \<and> is_kind t \<longrightarrow>
      fst (open_child_window pf ctor None w data) = failure ''Window manager not initialized'' \<and>
      fst (open_child_window pf ctor (Some wm) w data) =
        answer_of (snd (snd (createChildWindow pf ctor (JStr t) (preset t) wm w)))
          (fst (createChildWindow pf ctor (JStr t) (preset t) wm w)) \<and>
      fst (snd (open_child_window pf ctor (Some wm) w data)) =
        Some (fst (snd (createChildWindow pf ctor (JStr t) (preset t) wm w)))) \<and>
   ((\<exists>n. fst (open_child_window pf ctor wmo w data) = succeeded n) \<or>
    (\<exists>m. fst (open_child_window pf ctor wmo w data) = failure m))"
proof (intro conjI impI)
  show "(\<exists>n. fst (open_child_window pf ctor wmo w data) = succeeded n) \<or>
        (\<exists>m. fst (open_child_window pf ctor wmo w data) = failure m)"
    by (rule handler_total)
qed (use handler_not_object [of data pf ctor wmo w] handler_bad_type [of data pf ctor wmo w]
       handler_unknown_type [of data t pf ctor wmo w] handler_uninitialised [of data t pf ctor w]
       handler_delegates [of data t pf ctor wm w] in \<open>simp_all\<close>)


text \<open>
  The payloads \<open>null\<close>, a bare string, \<open>{}\<close>, \<open>{type: 5}\<close>,
  \<open>{type: "invalid"}\<close> and \<open>{type: "child2"}\<close>, the last one without and with a
  manager.
\<close>

theorem open_child_window_answers_witness:
  "fst (open_child_window sample_platform (sample_ctor 7) (Some new_manager) empty_world JNull) =
     failure ''Invalid request data: expected object with type property'' \<and>
   fst (open_child_window sample_platform (sample_ctor 7) (Some new_manager) empty_world (JStr ''child1'')) =
     failure ''Invalid request data: expected object with type property'' \<and>
   fst (open_child_window sample_platform (sample_ctor 7) (Some new_manager) empty_world (JObj [])) =
     failure ''Invalid child window type: type must be a non-empty string'' \<and>
   fst (open_child_window sample_platform (sample_ctor 7) (Some new_manager) empty_world
          (JObj [(''type'', JNum (Fin 5))])) =
     failure ''Invalid child window type: type must be a non-empty string'' \<and>
   fst (open_child_window sample_platform (sample_ctor 7) (Some new_manager) empty_world
          (JObj [(''type'', JStr ''invalid'')])) =
     failure ''Invalid child window type: invalid. Valid types are: child1, child2, child3'' \<and>
   fst (open_child_window sample_platform (sample_ctor 7) None empty_world
          (JObj [(''type'', JStr ''child2'')])) =
     failure ''Window manager not initialized'' \<and>
   fst (open_child_window sample_platform (sample_ctor 7) (Some new_manager) empty_world
          (JObj [(''type'', JStr ''child2'')])) = succeeded 7"
proof -
  note t = open_child_window_answers [of _ sample_platform "sample_ctor 7" _ empty_world _ new_manager]
  have a: "fst (open_child_window sample_platform (sample_ctor 7) (Some new_manager) empty_world JNull) =
     failure ''Invalid request data: expected object with type property''"
    using t [of JNull "Some new_manager"] by (simp add: is_object_def)
  have b: "fst (open_child_window sample_platform (sample_ctor 7) (Some new_manager) empty_world (JStr ''child1'')) =
     failure ''Invalid request data: expected object with type property''"
    using t [of "JStr ''child1''" "Some new_manager"] by (simp add: is_object_def)
  have c: "fst (open_child_window sample_platform (sample_ctor 7) (Some new_manager) empty_world (JObj [])) =
     failure ''Invalid child window type: type must be a non-empty string''"
    using t [of "JObj []" "Some new_manager"]
    by (simp add: is_object_def object_prototype_get_def object_prototype_methods_def)
  have d: "fst (open_child_window sample_platform (sample_ctor 7) (Some new_manager) empty_world
          (JObj [(''type'', JNum (Fin 5))])) =
     failure ''Invalid child window type: type must be a non-empty string''"
    using t [of "JObj [(''type'', JNum (Fin 5))]" "Some new_manager"] by (simp add: is_object_def)
  have e: "fst (open_child_window sample_platform (sample_ctor 7) (Some new_manager) empty_world
          (JObj [(''type'', JStr ''invalid'')])) =
     failure ''Invalid child window type: invalid. Valid types are: child1, child2, child3''"
    using t [of "JObj [(''type'', JStr ''invalid'')]" "Some new_manager" "''invalid''"]
    by (simp add: is_object_def is_kind_def inherited_name_def object_prototype_methods_def)
  have k: "is_object (JObj [(''type'', JStr ''child2'')]) \<and>
           get_prop (JObj [(''type'', JStr ''child2'')]) ''type'' = JStr ''child2'' \<and> is_kind ''child2''"
    by (simp add: is_object_def is_kind_def)
  have f: "fst (open_child_window sample_platform (sample_ctor 7) None empty_world
          (JObj [(''type'', JStr ''child2'')])) = failure ''Window manager not initialized''"
    using t [of "JObj [(''type'', JStr ''child2'')]" None "''child2''"] k by blast
  have v: "answer_of (snd (snd (createChildWindow sample_platform (sample_ctor 7) (JStr ''child2'') (preset ''child2'') new_manager empty_world)))
          (fst (createChildWindow sample_platform (sample_ctor 7) (JStr ''child2'') (preset ''child2'') new_manager empty_world)) = succeeded 7"
    by (simp add: createChildWindow_def createChildWindow_try_def construct_window_def Let_def
        new_manager_def empty_world_def sample_ctor_def sample_window_def findWindowByType_def
        template_def preset_def dims_def answer_of_def string_of_nat.simps)
  have g: "fst (open_child_window sample_platform (sample_ctor 7) (Some new_manager) empty_world
          (JObj [(''type'', JStr ''child2'')])) = succeeded 7"
    using t [of "JObj [(''type'', JStr ''child2'')]" "Some new_manager" "''child2''"] k v by simp
  show ?thesis
    using a b c d e f g by blast
qed

text \<open>
  Claim C1 as stated gives every string \<open>type\<close> outside the three kinds the message
  that names the type and lists the valid ones. The empty string is such a string, and
  the handler's first test on \<open>type\<close> answers it with the non-empty-string message.
\<close>

theorem empty_type_counterexample:
  "fst (open_child_window sample_platform (sample_ctor 7) (Some new_manager) empty_world
          (JObj [(''type'', JStr [])])) =
     failure ''Invalid child window type: type must be a non-empty string'' \<and>
   fst (open_child_window sample_platform (sample_ctor 7) (Some new_manager) empty_world
          (JObj [(''type'', JStr [])])) \<noteq>
     failure (''Invalid child window type: '' @ [] @ ''. Valid types are: child1, child2, child3'')"
  by (simp add: open_child_window_def open_child_window_try_def failure_def errorMessage_of_def
      new_Error_def)

text \<open>
  The lookup \<open>CHILD_WINDOW_CONFIGS[type]\<close> also finds what the table inherits: for
  \<open>toString\<close> it yields a function, the handler goes on to \<open>createChildWindow\<close>,
  the counter moves, and the refusal comes from the dimension check.
\<close>

lemma inherited_name_reaches_manager:
  "fst (open_child_window sample_platform (sample_ctor 7) (Some new_manager) empty_world
          (JObj [(''type'', JStr ''toString'')])) = failure ''Invalid dimensions: undefined'' \<and>
   fst (snd (open_child_window sample_platform (sample_ctor 7) (Some new_manager) empty_world
          (JObj [(''type'', JStr ''toString'')]))) = Some \<lparr>childWindows = [], windowCounter = 1\<rparr>"
  by (simp add: open_child_window_def open_child_window_try_def failure_def errorMessage_of_def
      new_Error_def config_lookup is_kind_def object_prototype_get_def object_prototype_methods_def
      createChildWindow_def createChildWindow_try_def Let_def new_manager_def
      sample_platform_def template_opt_def)

subsection \<open>The child-window bridge\<close>

text \<open>
  Claim C10. \<open>getWindowInfo\<close> hands back as \<open>type\<close> whatever the platform's
  query reader finds under \<open>type\<close> in the address, with no check against the three
  kinds: any string it finds, and \<open>null\<close> when it finds none. When reading the address
  throws, \<open>type\<close> is \<open>null\<close> (not \<open>unknown\<close>) and \<open>url\<close> is the string
  \<open>unknown\<close>; with no location at all (or an empty \<open>href\<close>) \<open>url\<close> is
  \<open>unknown\<close> too, and \<open>type\<close> is what the reader finds in the empty string.
\<close>

theorem window_info_is_unvalidated:
  "info_type (getWindowInfo usp now (Location search href)) = usp search ''type'' \<and>
   info_url (getWindowInfo usp now (Location search href)) = (if href = [] then ''unknown'' else href) \<and>
   info_type (getWindowInfo usp now (Read_throws e)) = None \<and>
   info_url (getWindowInfo usp now (Read_throws e)) = ''unknown'' \<and>
   info_type (getWindowInfo usp now No_location) = usp [] ''type'' \<and>
   info_url (getWindowInfo usp now No_location) = ''unknown'' \<and>
   info_timestamp (getWindowInfo usp now loc) = now"
  by (simp add: getWindowInfo_def getWindowType_def getCurrentUrl_def)

text \<open>With a reader of \<open>name=value\<close> pairs: \<open>?type=bogus\<close> comes back as \<open>bogus\<close>.\<close>

theorem window_info_is_unvalidated_witness:
  "info_type (getWindowInfo sample_query_get ''2024-01-01T00:00:00.000Z''
      (Location ''?type=bogus'' ''file:///app/child.html?type=bogus'')) = Some ''bogus'' \<and>
   info_type (getWindowInfo sample_query_get ''2024-01-01T00:00:00.000Z''
      (Location [] ''file:///app/child.html'')) = None \<and>
   info_url (getWindowInfo sample_query_get ''2024-01-01T00:00:00.000Z''
      (Location [] ''file:///app/child.html'')) = ''file:///app/child.html'' \<and>
   info_type (getWindowInfo sample_query_get ''2024-01-01T00:00:00.000Z'' No_location) = None \<and>
   info_type (getWindowInfo sample_query_get ''2024-01-01T00:00:00.000Z'' (Read_throws JNull)) = None \<and>
   info_url (getWindowInfo sample_query_get ''2024-01-01T00:00:00.000Z'' (Read_throws JNull)) = ''unknown''"
  using window_info_is_unvalidated [of sample_query_get "''2024-01-01T00:00:00.000Z''" "''?type=bogus''"
          "''file:///app/child.html?type=bogus''" JNull No_location]
    window_info_is_unvalidated [of sample_query_get "''2024-01-01T00:00:00.000Z''" "[]"
          "''file:///app/child.html''" JNull No_location]
  by (simp add: sample_query_get_def)

subsection \<open>The error classifier\<close>

text \<open>
  Claim C7, as the code has it. A native error gives its name (or \<open>UnknownError\<close>
  when the name is empty), its message and the details \<open>{stack, cause}\<close>. A string
  gives \<open>StringError\<close> and itself as message, with no details. Any other non-null
  object gives as code its \<open>code\<close> field if that is truthy, else its \<open>name\<close> field
  if that is truthy, else \<open>ObjectError\<close>; as message its \<open>message\<close> field if that is
  truthy, else the JSON text of the object; as details the object. Everything else
  (\<open>null\<close>, \<open>undefined\<close>, numbers, booleans, functions) gives \<open>UnknownError\<close>,
  \<open>An unknown error occurred\<close> and the value as details. Every result carries the
  time of the call and the caller's context.
\<close>

theorem classification_rules:
  "createAppError pf now (JErr n m s c) ctx =
     \<lparr>code = JStr (if n = [] then ''UnknownError'' else n), message = JStr m,
      details = Some (JObj [(''stack'', s), (''cause'', c)]), timestamp = now, context_tag = ctx\<rparr> \<and>
   createAppError pf now (JStr x) ctx =
     \<lparr>code = JStr ''StringError'', message = JStr x, details = None, timestamp = now, context_tag = ctx\<rparr> \<and>
   (is_object e \<and> \<not> instanceof_Error e \<longrightarrow>
      code (createAppError pf now e ctx) =
        (if truthy (get_prop e ''code'') then get_prop e ''code''
         else if truthy (get_prop e ''name'') then get_prop e ''name''
         else JStr ''ObjectError'') \<and>
      message (createAppError pf now e ctx) =
        (if truthy (get_prop e ''message'') then get_prop e ''message''
         else of_result (JSON_stringify pf e)) \<and>
      details (createAppError pf now e ctx) = Some e) \<and>
   (\<not> is_object e \<and> typeof e \<noteq> T_string \<longrightarrow>
      createAppError pf now e ctx =
        \<lparr>code = JStr ''UnknownError'', message = JStr ''An unknown error occurred'',
         details = Some e, timestamp = now, context_tag = ctx\<rparr>) \<and>
   timestamp (createAppError pf now e ctx) = now \<and>
   context_tag (createAppError pf now e ctx) = ctx"
  by (cases e) (simp_all add: createAppError_def js_or_def is_object_def)

text \<open>The inputs of the hook's own tests.\<close>

theorem classification_rules_witness:
  "createAppError sample_platform ''t0'' (JErr ''TypeError'' ''X'' (JStr ''at f'') JUndefined) (Some ''ctx'') =
     \<lparr>code = JStr ''TypeError'', message = JStr ''X'',
      details = Some (JObj [(''stack'', JStr ''at f''), (''cause'', JUndefined)]),
      timestamp = ''t0'', context_tag = Some ''ctx''\<rparr> \<and>
   createAppError sample_platform ''t0'' (JStr ''Y'') None =
     \<lparr>code = JStr ''StringError'', message = JStr ''Y'', details = None, timestamp = ''t0'', context_tag = None\<rparr> \<and>
   code (createAppError sample_platform ''t0''
      (JObj [(''code'', JStr ''CUSTOM_ERROR''), (''message'', JStr ''Custom error message'')]) None) = JStr ''CUSTOM_ERROR'' \<and>
   message (createAppError sample_platform ''t0''
      (JObj [(''code'', JStr ''CUSTOM_ERROR''), (''message'', JStr ''Custom error message'')]) None) = JStr ''Custom error message'' \<and>
   code (createAppError sample_platform ''t0'' (JObj [(''someProperty'', JStr ''value'')]) None) = JStr ''ObjectError'' \<and>
   message (createAppError sample_platform ''t0'' (JObj [(''someProperty'', JStr ''value'')]) None) = JStr ''{...}'' \<and>
   createAppError sample_platform ''t0'' JNull None =
     \<lparr>code = JStr ''UnknownError'', message = JStr ''An unknown error occurred'',
      details = Some JNull, timestamp = ''t0'', context_tag = None\<rparr>"
  using classification_rules [of sample_platform "''t0''" "''TypeError''" "''X''" "JStr ''at f''" JUndefined "Some ''ctx''" "''Y''"
            "JObj [(''code'', JStr ''CUSTOM_ERROR''), (''message'', JStr ''Custom error message'')]"]
    classification_rules [of sample_platform "''t0''" "''TypeError''" "''X''" "JStr ''at f''" JUndefined None "''Y''"
            "JObj [(''code'', JStr ''CUSTOM_ERROR''), (''message'', JStr ''Custom error message'')]"]
    classification_rules [of sample_platform "''t0''" "''TypeError''" "''X''" "JStr ''at f''" JUndefined None "''Y''"
            "JObj [(''someProperty'', JStr ''value'')]"]
    classification_rules [of sample_platform "''t0''" "''TypeError''" "''X''" "JStr ''at f''" JUndefined None "''Y''" JNull]
  by (simp add: is_object_def object_prototype_get_def object_prototype_methods_def of_result_def
      sample_platform_def)

text \<open>
  Claim C7 as stated takes the JSON text only when the \<open>message\<close> field is absent.
  The object \<open>{message: ""}\<close> has the field, and the classifier still answers with
  the JSON text: \<open>error.message || JSON.stringify(error)\<close> falls through on every
  falsy message.
\<close>

theorem empty_message_counterexample:
  "get_prop (JObj [(''message'', JStr [])]) ''message'' = JStr [] \<and>
   message (createAppError sample_platform ''t0'' (JObj [(''message'', JStr [])]) None) = JStr ''{...}''"
  by (simp add: createAppError_def js_or_def of_result_def sample_platform_def)

subsection \<open>The retry controller\<close>

lemma handleError_state:
  "fst (handleError pf now e ctx s) =
     \<lparr>hasError = True, last_error = Some (createAppError pf now e ctx),
      retryCount = retryCount (fst s), lastRetryAt = lastRetryAt (fst s)\<rparr>"
  by (simp add: handleError_def Let_def)

lemma retry_refused:
  "count_reaches (retryCount errorState) maxRetries \<Longrightarrow>
   retry pf maxRetries errorState t1 t2 retryFn s =
     (fst s, snd s @ [Logged L_warn (''Maximum retry attempts ('' @ number_text pf maxRetries @ '') reached'')
                        (JObj [(''error'', (case last_error errorState of None \<Rightarrow> JUndefined | Some a \<Rightarrow> message a))])
                        None])"
  by (simp add: retry_def)

lemma retry_failed:
  "\<not> count_reaches (retryCount errorState) maxRetries \<Longrightarrow>
   fst (retry pf maxRetries errorState t1 t2 (Some e) s) =
     \<lparr>hasError = True, last_error = Some (createAppError pf t2 e (Some ''retry-operation'')),
      retryCount = retryCount (fst s) + 1, lastRetryAt = Some t1\<rparr>"
  by (simp add: retry_def Let_def handleError_state)

lemma retry_succeeded:
  "\<not> count_reaches (retryCount errorState) maxRetries \<Longrightarrow>
   fst (retry pf maxRetries errorState t1 t2 None s) = initial_state"
  by (simp add: retry_def Let_def clearError_def initial_state_def)

lemma count_within_zero: "count_within n x \<Longrightarrow> count_within 0 x"
  by (cases x) simp_all

lemma count_within_next:
  assumes "whole x" "count_within n x" "\<not> count_reaches n x"
  shows "count_within (n + 1) x"
proof (cases x)
  case (Fin r)
  from assms(1) Fin have r: "r = of_int \<lfloor>r\<rfloor>" by (simp add: whole_def)
  from assms(2,3) Fin have "real n < r" by simp
  then have "real n < of_int \<lfloor>r\<rfloor>" using r by simp
  then have "int n < \<lfloor>r\<rfloor>" by linarith
  then have "int n + 1 \<le> \<lfloor>r\<rfloor>" by simp
  then have "real n + 1 \<le> of_int \<lfloor>r\<rfloor>" by linarith
  then show ?thesis using r Fin by simp
qed (use assms in simp_all)

lemma count_within_nat [simp]: "count_within n (Fin (real m)) = (n \<le> m)"
  by simp

lemma whole_nat [simp]: "whole (Fin (real m))"
  by (simp add: whole_def)

lemma retry_bounded:
  assumes "whole maxRetries" "count_within (retryCount (fst s)) maxRetries"
    and "retryCount errorState = retryCount (fst s)"
  shows "count_within (retryCount (fst (retry pf maxRetries errorState t1 t2 retryFn s))) maxRetries"
proof (cases "count_reaches (retryCount errorState) maxRetries")
  case True
  then show ?thesis using assms(2) by (simp add: retry_refused)
next
  case False
  show ?thesis
  proof (cases retryFn)
    case None
    then show ?thesis
      using count_within_zero [OF assms(2)] by (simp add: retry_succeeded [OF False] initial_state_def)
  next
    case (Some e)
    from False assms(3) have "\<not> count_reaches (retryCount (fst s)) maxRetries" by simp
    from count_within_next [OF assms(1,2) this] show ?thesis
      by (simp add: Some retry_failed [OF False])
  qed
qed

lemma held_render [simp]: "held (render h) = held h"
  by (simp add: render_def)

lemma step_bounded:
  assumes "whole maxRetries" "count_within (retryCount (fst (held h))) maxRetries"
    and "is_retry x \<longrightarrow> up_to_date h"
  shows "count_within (retryCount (fst (held (controller_step pf maxRetries x h)))) maxRetries"
proof (cases x)
  case (Do_handleError e ctx now)
  then show ?thesis using assms(2) by (simp add: handleError_state)
next
  case Do_clearError
  then show ?thesis using count_within_zero [OF assms(2)] by (simp add: clearError_def)
next
  case (Do_retry retryFn t1 t2)
  with assms(3) have "retryCount (captured h) = retryCount (fst (held h))" by (simp add: up_to_date_def)
  from retry_bounded [OF assms(1,2) this] show ?thesis by (simp add: Do_retry)
next
  case Do_render
  then show ?thesis using assms(2) by simp
qed

lemma step_up_to_date:
  "up_to_date (controller_step pf maxRetries Do_render h)"
  "up_to_date h \<Longrightarrow> up_to_date (controller_step pf maxRetries (Do_handleError e ctx now) h)"
  by (simp_all add: up_to_date_def render_def handleError_state)

lemma run_bounded:
  assumes "whole maxRetries"
  shows "in_step b ops \<Longrightarrow> count_within (retryCount (fst (held h))) maxRetries \<Longrightarrow> (b \<longrightarrow> up_to_date h) \<Longrightarrow>
         count_within (retryCount (fst (held (controller_run pf maxRetries ops h)))) maxRetries"
proof (induction ops arbitrary: b h)
  case Nil
  then show ?case by simp
next
  case (Cons x xs)
  have r: "is_retry x \<longrightarrow> up_to_date h"
    using Cons.prems(1,3) by (cases x) simp_all
  note s = step_bounded [OF assms Cons.prems(2) r, of pf]
  show ?case
  proof (cases x)
    case (Do_handleError e ctx now)
    have "in_step b xs" using Cons.prems(1) by (simp add: Do_handleError)
    moreover have "b \<longrightarrow> up_to_date (controller_step pf maxRetries x h)"
      using Cons.prems(3) step_up_to_date(2) [of h pf maxRetries e ctx now] by (simp add: Do_handleError)
    ultimately show ?thesis using Cons.IH [of b "controller_step pf maxRetries x h"] s by simp
  next
    case Do_clearError
    have "in_step False xs" using Cons.prems(1) by (simp add: Do_clearError)
    then show ?thesis using Cons.IH [of False "controller_step pf maxRetries x h"] s by simp
  next
    case (Do_retry retryFn t1 t2)
    have "in_step False xs" using Cons.prems(1) by (simp add: Do_retry)
    then show ?thesis using Cons.IH [of False "controller_step pf maxRetries x h"] s by simp
  next
    case Do_render
    have "in_step True xs" using Cons.prems(1) by (simp add: Do_render)
    moreover have "up_to_date (controller_step pf maxRetries x h)"
      using step_up_to_date(1) [of pf maxRetries h] by (simp add: Do_render)
    ultimately show ?thesis using Cons.IH [of True "controller_step pf maxRetries x h"] s by simp
  qed
qed

lemma number_text_nat:
  "n < 10 ^ 21 \<Longrightarrow> number_text pf (Fin (real n)) = string_of_nat n"
  by (simp add: number_text_def) 

lemma three_failures_count:
  "retryCount (fst (held (controller_run pf (Fin 2) three_failures mount))) = 2 \<and>
   fst (held (controller_run pf (Fin 2) three_failures mount)) =
     fst (held (controller_run pf (Fin 2) (butlast three_failures) mount)) \<and>
   last (snd (held (controller_run pf (Fin 2) three_failures mount))) =
     Logged L_warn ''Maximum retry attempts (2) reached'' (JObj [(''error'', JStr ''Retry 2 failed'')]) None"
  by (simp add: three_failures_def mount_def render_def retry_def Let_def handleError_def initial_state_def
        createAppError_def js_or_def number_text_def string_of_nat.simps)

lemma refused_in_place:
  assumes "up_to_date h" "count_reaches (retryCount (fst (held h))) maxRetries"
  shows "fst (held (controller_step pf maxRetries (Do_retry retryFn t1 t2) h)) = fst (held h)"
  using assms by (simp add: up_to_date_def retry_refused)

text \<open>
  The payload of the warning is the message of the error the callback closed over. A
  \<open>handleError\<close> leaves \<open>retryCount\<close> as it was, so the render after it hands out
  the callback it had: the warning of a refused retry then names no error although the
  hook holds one.
\<close>

lemma warning_reads_closure:
  "last (snd (held (controller_run pf (Fin 0) error_then_retry mount))) =
     Logged L_warn ''Maximum retry attempts (0) reached'' (JObj [(''error'', JUndefined)]) None \<and>
   map_option message (last_error (fst (held (controller_run pf (Fin 0) error_then_retry mount)))) =
     Some (JStr ''boom'')"
  by (simp add: error_then_retry_def mount_def render_def retry_def Let_def handleError_def initial_state_def
        createAppError_def number_text_def string_of_nat.simps)

text \<open>
  Claim C8, as the code has it. Take a maximum that is a whole number (or not finite).
  Every operation keeps \<open>retryCount <= maxRetries\<close>, provided a \<open>retry\<close> goes
  through a callback that has seen the current count; so it holds after any sequence of
  operations on a fresh hook in which a render lies between a \<open>retry\<close> and the
  \<open>retry\<close> or \<open>clearError\<close> before it. For every maximum: a retry through a
  callback whose count has reached the maximum only logs the warning and leaves the
  state as it was; a retry whose operation fails ends with the count one higher, the
  error flag set and the failure classified with context \<open>retry-operation\<close>; a retry
  whose operation succeeds, and \<open>clearError\<close>, end with
  \<open>{hasError: false, retryCount: 0}\<close>. With a maximum of 2, three failing retries
  with a render after each end with a count of 2, the third having changed nothing and
  logged \<open>Maximum retry attempts (2) reached\<close>.
\<close>

theorem retry_is_bounded:
  "(whole maxRetries \<and> count_within (retryCount (fst (held h))) maxRetries \<and> (is_retry x \<longrightarrow> up_to_date h) \<longrightarrow>
      count_within (retryCount (fst (held (controller_step pf maxRetries x h)))) maxRetries) \<and>
   (whole maxRetries \<and> count_within 0 maxRetries \<and> in_step True ops \<longrightarrow>
      count_within (retryCount (fst (held (controller_run pf maxRetries ops mount)))) maxRetries) \<and>
   (count_reaches (retryCount errorState) maxRetries \<longrightarrow>
      retry pf maxRetries errorState t1 t2 retryFn s =
        (fst s, snd s @ [Logged L_warn (''Maximum retry attempts ('' @ number_text pf maxRetries @ '') reached'')
                           (JObj [(''error'', (case last_error errorState of None \<Rightarrow> JUndefined | Some a \<Rightarrow> message a))])
                           None])) \<and>
   (up_to_date h \<and> count_reaches (retryCount (fst (held h))) maxRetries \<longrightarrow>
      fst (held (controller_step pf maxRetries (Do_retry retryFn t1 t2) h)) = fst (held h)) \<and>
   (\<not> count_reaches (retryCount errorState) maxRetries \<longrightarrow>
      fst (retry pf maxRetries errorState t1 t2 (Some e) s) =
        \<lparr>hasError = True, last_error = Some (createAppError pf t2 e (Some ''retry-operation'')),
         retryCount = retryCount (fst s) + 1, lastRetryAt = Some t1\<rparr> \<and>
      fst (retry pf maxRetries errorState t1 t2 None s) =
        \<lparr>hasError = False, last_error = None, retryCount = 0, lastRetryAt = None\<rparr>) \<and>
   fst (clearError s) = \<lparr>hasError = False, last_error = None, retryCount = 0, lastRetryAt = None\<rparr> \<and>
   retryCount (fst (held (controller_run pf (Fin 2) three_failures mount))) = 2 \<and>
   fst (held (controller_run pf (Fin 2) three_failures mount)) =
     fst (held (controller_run pf (Fin 2) (butlast three_failures) mount)) \<and>
   last (snd (held (controller_run pf (Fin 2) three_failures mount))) =
     Logged L_warn ''Maximum retry attempts (2) reached'' (JObj [(''error'', JStr ''Retry 2 failed'')]) None"
proof (intro conjI impI)
  show "fst (clearError s) = \<lparr>hasError = False, last_error = None, retryCount = 0, lastRetryAt = None\<rparr>"
    by (simp add: clearError_def)
  show "retryCount (fst (held (controller_run pf (Fin 2) three_failures mount))) = 2"
    using three_failures_count [of pf] by blast
  show "fst (held (controller_run pf (Fin 2) three_failures mount)) =
     fst (held (controller_run pf (Fin 2) (butlast three_failures) mount))"
    using three_failures_count [of pf] by blast
  show "last (snd (held (controller_run pf (Fin 2) three_failures mount))) =
     Logged L_warn ''Maximum retry attempts (2) reached'' (JObj [(''error'', JStr ''Retry 2 failed'')]) None"
    using three_failures_count [of pf] by blast
next
  assume a: "whole maxRetries \<and> count_within (retryCount (fst (held h))) maxRetries \<and> (is_retry x \<longrightarrow> up_to_date h)"
  show "count_within (retryCount (fst (held (controller_step pf maxRetries x h)))) maxRetries"
    by (rule step_bounded) (use a in blast)+
next
  assume a: "whole maxRetries \<and> count_within 0 maxRetries \<and> in_step True ops"
  have u: "True \<longrightarrow> up_to_date mount" by (simp add: up_to_date_def mount_def)
  have c: "count_within (retryCount (fst (held mount))) maxRetries"
    using a by (simp add: mount_def initial_state_def)
  from a have w: "whole maxRetries" and i: "in_step True ops" by blast+
  show "count_within (retryCount (fst (held (controller_run pf maxRetries ops mount)))) maxRetries"
    by (rule run_bounded [OF w i c u])
next
  assume "count_reaches (retryCount errorState) maxRetries"
  then show "retry pf maxRetries errorState t1 t2 retryFn s =
        (fst s, snd s @ [Logged L_warn (''Maximum retry attempts ('' @ number_text pf maxRetries @ '') reached'')
                           (JObj [(''error'', (case last_error errorState of None \<Rightarrow> JUndefined | Some a \<Rightarrow> message a))])
                           None])"
    by (rule retry_refused)
next
  assume a: "up_to_date h \<and> count_reaches (retryCount (fst (held h))) maxRetries"
  show "fst (held (controller_step pf maxRetries (Do_retry retryFn t1 t2) h)) = fst (held h)"
    by (rule refused_in_place) (use a in blast)+
next
  assume l: "\<not> count_reaches (retryCount errorState) maxRetries"
  show "fst (retry pf maxRetries errorState t1 t2 (Some e) s) =
        \<lparr>hasError = True, last_error = Some (createAppError pf t2 e (Some ''retry-operation'')),
         retryCount = retryCount (fst s) + 1, lastRetryAt = Some t1\<rparr>"
    by (rule retry_failed [OF l])
  show "fst (retry pf maxRetries errorState t1 t2 None s) =
        \<lparr>hasError = False, last_error = None, retryCount = 0, lastRetryAt = None\<rparr>"
    using retry_succeeded [OF l] by (simp add: initial_state_def)
qed

text \<open>
  With a maximum of 2: a first failing retry on a fresh hook, the three failing retries,
  a retry at a count of 2, and a retry that succeeds at a count of 1.
\<close>

theorem retry_is_bounded_witness:
  "retryCount (fst (held (controller_step sample_platform (Fin 2) (Do_retry (Some (JStr ''boom'')) ''t1'' ''t2'') mount))) \<le> 2 \<and>
   retryCount (fst (held (controller_run sample_platform (Fin 2) three_failures mount))) \<le> 2 \<and>
   retry sample_platform (Fin 2) (initial_state\<lparr>retryCount := 2\<rparr>) ''t1'' ''t2'' (Some (JStr ''boom''))
       (initial_state\<lparr>retryCount := 2\<rparr>, []) =
     (initial_state\<lparr>retryCount := 2\<rparr>,
      [Logged L_warn ''Maximum retry attempts (2) reached'' (JObj [(''error'', JUndefined)]) None]) \<and>
   fst (held (controller_step sample_platform (Fin 2) (Do_retry (Some (JStr ''boom'')) ''t1'' ''t2'')
       \<lparr>held = (initial_state\<lparr>retryCount := 2\<rparr>, []), captured = initial_state\<lparr>retryCount := 2\<rparr>\<rparr>)) =
     initial_state\<lparr>retryCount := 2\<rparr> \<and>
   retryCount (fst (retry sample_platform (Fin 2) initial_state ''t1'' ''t2'' (Some (JStr ''boom'')) (initial_state, []))) = 1 \<and>
   last_error (fst (retry sample_platform (Fin 2) initial_state ''t1'' ''t2'' (Some (JStr ''boom'')) (initial_state, []))) =
     Some \<lparr>code = JStr ''StringError'', message = JStr ''boom'', details = None, timestamp = ''t2'',
           context_tag = Some ''retry-operation''\<rparr> \<and>
   fst (retry sample_platform (Fin 2) (initial_state\<lparr>hasError := True, retryCount := 1\<rparr>) ''t1'' ''t2'' None
       (initial_state\<lparr>hasError := True, retryCount := 1\<rparr>, [])) = initial_state"
proof -
  note t = retry_is_bounded [of "Fin 2" _ "Do_retry (Some (JStr ''boom'')) ''t1'' ''t2''" sample_platform three_failures
             _ "''t1''" "''t2''" "Some (JStr ''boom'')" _ "JStr ''boom''"]
  have w: "whole (Fin 2)" by (simp add: whole_def)
  have i: "in_step True three_failures" by (simp add: three_failures_def)
  have a: "retryCount (fst (held (controller_step sample_platform (Fin 2) (Do_retry (Some (JStr ''boom'')) ''t1'' ''t2'') mount))) \<le> 2"
    using t [of mount initial_state "(initial_state, [])"] w by (simp add: mount_def initial_state_def up_to_date_def)
  have z: "count_within 0 (Fin 2)" by simp
  have "count_within (retryCount (fst (held (controller_run sample_platform (Fin 2) three_failures mount)))) (Fin 2)"
    using t [of mount initial_state "(initial_state, [])"] w i z by blast
  then have b: "retryCount (fst (held (controller_run sample_platform (Fin 2) three_failures mount))) \<le> 2"
    by simp
  have c: "retry sample_platform (Fin 2) (initial_state\<lparr>retryCount := 2\<rparr>) ''t1'' ''t2'' (Some (JStr ''boom''))
       (initial_state\<lparr>retryCount := 2\<rparr>, []) =
     (initial_state\<lparr>retryCount := 2\<rparr>,
      [Logged L_warn ''Maximum retry attempts (2) reached'' (JObj [(''error'', JUndefined)]) None])"
    using t [of mount "initial_state\<lparr>retryCount := 2\<rparr>" "(initial_state\<lparr>retryCount := 2\<rparr>, [])"]
    by (simp add: initial_state_def number_text_def string_of_nat.simps)
  have d: "fst (held (controller_step sample_platform (Fin 2) (Do_retry (Some (JStr ''boom'')) ''t1'' ''t2'')
       \<lparr>held = (initial_state\<lparr>retryCount := 2\<rparr>, []), captured = initial_state\<lparr>retryCount := 2\<rparr>\<rparr>)) =
     initial_state\<lparr>retryCount := 2\<rparr>"
    using t [of "\<lparr>held = (initial_state\<lparr>retryCount := 2\<rparr>, []), captured = initial_state\<lparr>retryCount := 2\<rparr>\<rparr>"
               initial_state "(initial_state, [])"]
    by (simp add: initial_state_def up_to_date_def)
  have e: "fst (retry sample_platform (Fin 2) initial_state ''t1'' ''t2'' (Some (JStr ''boom'')) (initial_state, [])) =
        \<lparr>hasError = True, last_error = Some (createAppError sample_platform ''t2'' (JStr ''boom'') (Some ''retry-operation'')),
         retryCount = 1, lastRetryAt = Some ''t1''\<rparr>"
    using t [of mount initial_state "(initial_state, [])"] by (simp add: initial_state_def)
  have f: "fst (retry sample_platform (Fin 2) (initial_state\<lparr>hasError := True, retryCount := 1\<rparr>) ''t1'' ''t2'' None
       (initial_state\<lparr>hasError := True, retryCount := 1\<rparr>, [])) = initial_state"
    using t [of mount "initial_state\<lparr>hasError := True, retryCount := 1\<rparr>" "(initial_state\<lparr>hasError := True, retryCount := 1\<rparr>, [])"]
    by (simp add: initial_state_def)
  show ?thesis
    using a b c d f by (simp add: e createAppError_def)
qed

text \<open>
  Claim C8 as stated has every operation keep \<open>retryCount <= maxRetries\<close>, for every
  maximum, and every retry at the maximum refused. With a maximum of 1, a second retry
  through the callback of the mount is made at a count of 1 and is not refused: the
  count ends at 2. With a maximum of 1.5 and a render between the two retries, the
  second retry starts from a count of 1, which is within the maximum, and ends at 2,
  which is not.
\<close>

theorem retry_bound_counterexample:
  "retryCount (fst (held (controller_run sample_platform (Fin 1) (butlast same_callback) mount))) = 1 \<and>
   count_reaches 1 (Fin 1) \<and>
   retryCount (fst (held (controller_run sample_platform (Fin 1) same_callback mount))) = 2 \<and>
   \<not> count_within 2 (Fin 1) \<and>
   retryCount (fst (held (controller_run sample_platform (Fin (3 / 2)) (butlast two_failures) mount))) = 1 \<and>
   count_within 1 (Fin (3 / 2)) \<and>
   retryCount (fst (held (controller_run sample_platform (Fin (3 / 2)) two_failures mount))) = 2 \<and>
   \<not> count_within 2 (Fin (3 / 2))"
  by (simp add: same_callback_def two_failures_def mount_def render_def retry_def Let_def handleError_def
        initial_state_def)

subsection \<open>The remote image fetch unit\<close>

lemma str_includes_head: "str_includes s (c # rest) \<Longrightarrow> c \<in> set s"
  by (induction s) (auto simp: str_includes.simps)

lemma not_network_messages:
  "\<not> str_includes ''Invalid response content type'' ''Failed to fetch''"
  "\<not> str_includes ''Invalid response format: not an object'' ''Failed to fetch''"
  "\<not> str_includes ''Invalid response format: missing or invalid message field'' ''Failed to fetch''"
  "\<not> str_includes ''Invalid response format: missing or invalid status field'' ''Failed to fetch''"
  by (auto dest: str_includes_head)

lemma catch_sets_flag: "error_flag (fst (fetchDogImage_catch pf now err s)) = True"
  by (simp add: fetchDogImage_catch_def Let_def split: jsval.splits)

lemma catch_has_error: "hasError (fst (snd (fetchDogImage_catch pf now err s))) = True"
  by (simp add: fetchDogImage_catch_def Let_def handleError_def split: jsval.splits)

lemma catch_general:
  "\<not> str_includes m ''Failed to fetch'' \<Longrightarrow>
   fetchDogImage_catch pf now (new_Error pf m) s =
     ((fst s)\<lparr>error_flag := True\<rparr>,
      handleError pf now (new_Error pf m) (Some ''useDogApi-general'')
        (apiError ''fetchDogImage'' (new_Error pf m) ''useDogApi'' (snd s)))"
  by (simp add: fetchDogImage_catch_def Let_def new_Error_def)

lemma catch_network:
  "str_includes m ''Failed to fetch'' \<Longrightarrow>
   fetchDogImage_catch pf now (new_Error pf m) s =
     ((fst s)\<lparr>errorDetails := Some \<lparr>api_status = 0, api_statusText = ''Network Error'',
                                     api_message = Some ''Network connection failed''\<rparr>,
              error_flag := True\<rparr>,
      handleError pf now (new_Error pf ''Network connection failed'') (Some ''useDogApi-network'')
        (apiError ''fetchDogImage'' (new_Error pf m) ''useDogApi'' (snd s)))"
  by (simp add: fetchDogImage_catch_def Let_def new_Error_def)

lemma handled_message:
  "map_option message (last_error (fst (handleError pf now (new_Error pf m) ctx c))) = Some (JStr m) \<and>
   (case last_error (fst (handleError pf now (new_Error pf m) ctx c)) of None \<Rightarrow> None | Some a \<Rightarrow> context_tag a) = ctx"
  by (simp add: handleError_def Let_def createAppError_def new_Error_def)

lemma nonempty_string_iff: "(\<not> truthy v \<or> typeof v \<noteq> T_string) = (\<not> nonempty_string v)"
  by (cases v) (simp_all add: nonempty_string_def)

lemma is_object_iff: "(\<not> truthy v \<or> typeof v \<noteq> T_object) = (\<not> is_object v)"
  by (simp add: is_object_def)

lemma json_content_iff:
  "(case content_type r of None \<Rightarrow> True
    | Some contentType \<Rightarrow> contentType = [] \<or> \<not> str_includes contentType ''application/json'') =
   (\<not> json_content r)"
  by (auto simp: json_content_def str_includes.simps split: option.splits)

lemma try_failure:
  assumes "\<not> succeeds outcome"
  shows "fst (fetchDogImage_try pf outcome s) \<noteq> None"
proof (cases outcome)
  case (Fetch_rejects e)
  then show ?thesis by (simp add: fetchDogImage_try_def)
next
  case (Fetch_resolves r)
  show ?thesis
  proof (cases "ok r")
    case False
    then show ?thesis by (simp add: Fetch_resolves fetchDogImage_try_def Let_def)
  next
    case o: True
    show ?thesis
    proof (cases "json_content r")
      case False
      then show ?thesis
        using o by (simp add: Fetch_resolves fetchDogImage_try_def Let_def json_content_iff)
    next
      case j: True
      show ?thesis
      proof (cases "body_json r")
        case (Inl e)
        then show ?thesis
          using o j by (simp add: Fetch_resolves fetchDogImage_try_def Let_def json_content_iff)
      next
        case (Inr result)
        from assms o j have n: "\<not> is_object result \<or> \<not> nonempty_string (get_prop result ''message'') \<or>
               \<not> nonempty_string (get_prop result ''status'')"
          by (simp add: succeeds_def Fetch_resolves Inr)
        show ?thesis
        proof (cases "is_object result")
          case False
          then have "\<not> truthy result \<or> typeof result \<noteq> T_object" using is_object_iff [of result] by blast
          then show ?thesis
            using o j by (simp add: Fetch_resolves fetchDogImage_try_def Let_def json_content_iff Inr)
        next
          case b: True
          then have b1: "\<not> (\<not> truthy result \<or> typeof result \<noteq> T_object)" using is_object_iff [of result] by blast
          show ?thesis
          proof (cases "nonempty_string (get_prop result ''message'')")
            case False
            then have "\<not> truthy (get_prop result ''message'') \<or> typeof (get_prop result ''message'') \<noteq> T_string"
              using nonempty_string_iff [of "get_prop result ''message''"] by blast
            then show ?thesis
              using o j b1 by (simp add: Fetch_resolves fetchDogImage_try_def Let_def json_content_iff Inr)
          next
            case m: True
            then have m1: "\<not> (\<not> truthy (get_prop result ''message'') \<or> typeof (get_prop result ''message'') \<noteq> T_string)"
              using nonempty_string_iff [of "get_prop result ''message''"] by blast
            from n b m have "\<not> nonempty_string (get_prop result ''status'')" by simp
            then have "\<not> truthy (get_prop result ''status'') \<or> typeof (get_prop result ''status'') \<noteq> T_string"
              using nonempty_string_iff [of "get_prop result ''status''"] by blast
            then show ?thesis
              using o j b1 m1 by (simp add: Fetch_resolves fetchDogImage_try_def Let_def json_content_iff Inr)
          qed
        qed
      qed
    qed
  qed
qed

lemma failure_sets_flag:
  assumes "\<not> succeeds outcome"
  shows "error_flag (fst (fetchDogImage pf now outcome s)) \<and> \<not> loading (fst (fetchDogImage pf now outcome s)) \<and>
         public_error (fetchDogImage pf now outcome s)"
proof -
  let ?s1 = "((fst s)\<lparr>loading := True, error_flag := False, errorDetails := None\<rparr>,
                log_info ''Starting Dog API request'' JUndefined ''useDogApi'' (snd s))"
  from try_failure [OF assms, of pf ?s1] obtain err s3 where
    t: "fetchDogImage_try pf outcome ?s1 = (Some err, s3)"
    by (cases "fetchDogImage_try pf outcome ?s1") auto
  show ?thesis
    by (simp add: fetchDogImage_def Let_def t catch_sets_flag public_error_def)
qed

lemma http_failure:
  assumes "\<not> ok r"
    and "\<not> str_includes (''HTTP error! status: '' @ string_of_nat (status r) @ '' - '' @ statusText r) ''Failed to fetch''"
  shows "errorDetails (fst (fetchDogImage pf now (Fetch_resolves r) s)) =
           Some \<lparr>api_status = status r, api_statusText = statusText r,
                 api_message = Some (''HTTP '' @ string_of_nat (status r) @ '': '' @ statusText r)\<rparr> \<and>
         classified_message (fetchDogImage pf now (Fetch_resolves r) s) =
           Some (JStr (''HTTP error! status: '' @ string_of_nat (status r) @ '' - '' @ statusText r)) \<and>
         classified_context (fetchDogImage pf now (Fetch_resolves r) s) = Some ''useDogApi-general''"
  using assms handled_message [of pf now "''HTTP error! status: '' @ string_of_nat (status r) @ '' - '' @ statusText r"]
  by (simp add: fetchDogImage_def fetchDogImage_try_def Let_def catch_general
        classified_message_def classified_context_def)

lemma http_failure_try:
  assumes "\<not> ok r"
  shows "fst (fetchDogImage_try pf (Fetch_resolves r) s) =
           Some (new_Error pf (''HTTP error! status: '' @ string_of_nat (status r) @ '' - '' @ statusText r)) \<and>
         errorDetails (fst (snd (fetchDogImage_try pf (Fetch_resolves r) s))) =
           Some \<lparr>api_status = status r, api_statusText = statusText r,
                 api_message = Some (''HTTP '' @ string_of_nat (status r) @ '': '' @ statusText r)\<rparr>"
  using assms by (simp add: fetchDogImage_try_def Let_def)

lemma http_failure_network:
  assumes "\<not> ok r"
    and "str_includes (''HTTP error! status: '' @ string_of_nat (status r) @ '' - '' @ statusText r) ''Failed to fetch''"
  shows "errorDetails (fst (fetchDogImage pf now (Fetch_resolves r) s)) =
           Some \<lparr>api_status = 0, api_statusText = ''Network Error'',
                 api_message = Some ''Network connection failed''\<rparr> \<and>
         classified_message (fetchDogImage pf now (Fetch_resolves r) s) =
           Some (JStr ''Network connection failed'') \<and>
         classified_context (fetchDogImage pf now (Fetch_resolves r) s) = Some ''useDogApi-network''"
  using assms handled_message [of pf now "''Network connection failed''"]
  by (simp add: fetchDogImage_def fetchDogImage_try_def Let_def catch_network
        classified_message_def classified_context_def)

lemma content_type_failure:
  assumes "ok r" and "\<not> json_content r"
  shows "errorDetails (fst (fetchDogImage pf now (Fetch_resolves r) s)) =
           Some \<lparr>api_status = status r, api_statusText = statusText r,
                 api_message = Some ''Invalid response content type''\<rparr> \<and>
         classified_message (fetchDogImage pf now (Fetch_resolves r) s) =
           Some (JStr ''Invalid response content type'')"
proof -
  have c: "(case content_type r of None \<Rightarrow> True
            | Some contentType \<Rightarrow> contentType = [] \<or> \<not> str_includes contentType ''application/json'')"
    using assms(2) by (auto simp: json_content_def split: option.splits)
  show ?thesis
    using assms(1) c handled_message [of pf now "''Invalid response content type''"]
    by (simp add: fetchDogImage_def fetchDogImage_try_def Let_def catch_general not_network_messages
          classified_message_def)
qed

lemma json_content_passes:
  "json_content r \<Longrightarrow>
   \<not> (case content_type r of None \<Rightarrow> True
      | Some contentType \<Rightarrow> contentType = [] \<or> \<not> str_includes contentType ''application/json'')"
  by (auto simp: json_content_def str_includes.simps split: option.splits)

lemma message_field_failure:
  assumes "ok r" "json_content r" "body_json r = Inr result" "is_object result"
    and "\<not> nonempty_string (get_prop result ''message'')"
  shows "classified_message (fetchDogImage pf now (Fetch_resolves r) s) =
           Some (JStr ''Invalid response format: missing or invalid message field'')"
proof -
  have m: "\<not> truthy (get_prop result ''message'') \<or> typeof (get_prop result ''message'') \<noteq> T_string"
    using assms(5) by (cases "get_prop result ''message''") (auto simp: nonempty_string_def)
  show ?thesis
    using assms(1,3,4) m json_content_passes [OF assms(2)]
      handled_message [of pf now "''Invalid response format: missing or invalid message field''"]
    by (simp add: fetchDogImage_def fetchDogImage_try_def Let_def catch_general not_network_messages
          classified_message_def is_object_def)
qed

lemma status_field_failure:
  assumes "ok r" "json_content r" "body_json r = Inr result" "is_object result"
    and "nonempty_string (get_prop result ''message'')"
    and "\<not> nonempty_string (get_prop result ''status'')"
  shows "classified_message (fetchDogImage pf now (Fetch_resolves r) s) =
           Some (JStr ''Invalid response format: missing or invalid status field'')"
proof -
  have m: "truthy (get_prop result ''message'') \<and> typeof (get_prop result ''message'') = T_string"
    using assms(5) by (cases "get_prop result ''message''") (auto simp: nonempty_string_def)
  have n: "\<not> truthy (get_prop result ''status'') \<or> typeof (get_prop result ''status'') \<noteq> T_string"
    using assms(6) by (cases "get_prop result ''status''") (auto simp: nonempty_string_def)
  show ?thesis
    using assms(1,3,4) m n json_content_passes [OF assms(2)]
      handled_message [of pf now "''Invalid response format: missing or invalid status field''"]
    by (simp add: fetchDogImage_def fetchDogImage_try_def Let_def catch_general not_network_messages
          classified_message_def is_object_def)
qed

lemma not_found_message:
  "\<not> str_includes (''HTTP error! status: '' @ string_of_nat 404 @ '' - '' @ ''Not Found'') ''Failed to fetch''"
  by (simp add: str_includes.simps string_of_nat.simps)

lemma failed_to_fetch_message:
  "str_includes (''HTTP error! status: '' @ string_of_nat 500 @ '' - '' @ ''Failed to fetch'') ''Failed to fetch''"
  by (simp add: str_includes.simps string_of_nat.simps)

text \<open>
  Claim C6, as the code has it. A response that is not \<open>ok\<close>, with status \<open>S\<close> and
  status text \<open>T\<close>, sets \<open>errorDetails\<close> to \<open>{S, T, "HTTP S: T"}\<close> and throws
  an error whose message is \<open>HTTP error! status: S - T\<close>. The \<open>catch\<close> block
  takes a message that contains \<open>Failed to fetch\<close> for a network failure: unless the
  thrown message contains it, the details stay and the error is classified with its
  message under \<open>useDogApi-general\<close>; if it does (the status text contains it), the
  details are replaced by \<open>{0, "Network Error", "Network connection failed"}\<close> and
  the error classified is \<open>Network connection failed\<close> under
  \<open>useDogApi-network\<close>. A content type that does not mention JSON sets
  \<open>errorDetails\<close> with the message \<open>Invalid response content type\<close> and fails
  with that message. A JSON object whose \<open>message\<close> is not a non-empty string fails
  with \<open>Invalid response format: missing or invalid message field\<close>; one whose
  \<open>status\<close> is not a non-empty string, with \<open>... status field\<close>. On every outcome
  other than a valid response the error flag is set, and loading is over.
\<close>

theorem fetch_failures:
  "(\<not> ok r \<longrightarrow>
      fst (fetchDogImage_try pf (Fetch_resolves r) s) =
        Some (new_Error pf (''HTTP error! status: '' @ string_of_nat (status r) @ '' - '' @ statusText r)) \<and>
      errorDetails (fst (snd (fetchDogImage_try pf (Fetch_resolves r) s))) =
        Some \<lparr>api_status = status r, api_statusText = statusText r,
              api_message = Some (''HTTP '' @ string_of_nat (status r) @ '': '' @ statusText r)\<rparr>) \<and>
   (\<not> ok r \<and>
    \<not> str_includes (''HTTP error! status: '' @ string_of_nat (status r) @ '' - '' @ statusText r) ''Failed to fetch'' \<longrightarrow>
      errorDetails (fst (fetchDogImage pf now (Fetch_resolves r) s)) =
        Some \<lparr>api_status = status r, api_statusText = statusText r,
              api_message = Some (''HTTP '' @ string_of_nat (status r) @ '': '' @ statusText r)\<rparr> \<and>
      classified_message (fetchDogImage pf now (Fetch_resolves r) s) =
        Some (JStr (''HTTP error! status: '' @ string_of_nat (status r) @ '' - '' @ statusText r)) \<and>
      classified_context (fetchDogImage pf now (Fetch_resolves r) s) = Some ''useDogApi-general'') \<and>
   (\<not> ok r \<and>
    str_includes (''HTTP error! status: '' @ string_of_nat (status r) @ '' - '' @ statusText r) ''Failed to fetch'' \<longrightarrow>
      errorDetails (fst (fetchDogImage pf now (Fetch_resolves r) s)) =
        Some \<lparr>api_status = 0, api_statusText = ''Network Error'',
              api_message = Some ''Network connection failed''\<rparr> \<and>
      classified_message (fetchDogImage pf now (Fetch_resolves r) s) =
        Some (JStr ''Network connection failed'') \<and>
      classified_context (fetchDogImage pf now (Fetch_resolves r) s) = Some ''useDogApi-network'') \<and>
   (ok r \<and> \<not> json_content r \<longrightarrow>
      errorDetails (fst (fetchDogImage pf now (Fetch_resolves r) s)) =
        Some \<lparr>api_status = status r, api_statusText = statusText r,
              api_message = Some ''Invalid response content type''\<rparr> \<and>
      classified_message (fetchDogImage pf now (Fetch_resolves r) s) =
        Some (JStr ''Invalid response content type'')) \<and>
   (ok r \<and> json_content r \<and> body_json r = Inr result \<and> is_object result \<and>
    \<not> nonempty_string (get_prop result ''message'') \<longrightarrow>
      classified_message (fetchDogImage pf now (Fetch_resolves r) s) =
        Some (JStr ''Invalid response format: missing or invalid message field'')) \<and>
   (ok r \<and> json_content r \<and> body_json r = Inr result \<and> is_object result \<and>
    nonempty_string (get_prop result ''message'') \<and> \<not> nonempty_string (get_prop result ''status'') \<longrightarrow>
      classified_message (fetchDogImage pf now (Fetch_resolves r) s) =
        Some (JStr ''Invalid response format: missing or invalid status field'')) \<and>
   (\<not> succeeds outcome \<longrightarrow>
      error_flag (fst (fetchDogImage pf now outcome s)) \<and>
      \<not> loading (fst (fetchDogImage pf now outcome s)) \<and>
      public_error (fetchDogImage pf now outcome s))"
  using http_failure_try [of r pf s] http_failure [of r pf now s] http_failure_network [of r pf now s]
    content_type_failure [of r pf now s]
    message_field_failure [of r result pf now s] status_field_failure [of r result pf now s]
    failure_sets_flag [of outcome pf now s]
  by blast

text \<open>
  A 404, a 500 whose status text is \<open>Failed to fetch\<close>, an HTML content type, a
  body without \<open>message\<close>, a body without \<open>status\<close>, and a rejected request.
\<close>

theorem fetch_failures_witness:
  "errorDetails (fst (snd (fetchDogImage_try sample_platform
      (Fetch_resolves (sample_response False 404 ''Not Found'' None JNull)) mounted))) =
     Some \<lparr>api_status = 404, api_statusText = ''Not Found'', api_message = Some ''HTTP 404: Not Found''\<rparr> \<and>
   errorDetails (fst (fetchDogImage sample_platform ''t0''
      (Fetch_resolves (sample_response False 404 ''Not Found'' None JNull)) mounted)) =
     Some \<lparr>api_status = 404, api_statusText = ''Not Found'', api_message = Some ''HTTP 404: Not Found''\<rparr> \<and>
   classified_message (fetchDogImage sample_platform ''t0''
      (Fetch_resolves (sample_response False 404 ''Not Found'' None JNull)) mounted) =
     Some (JStr ''HTTP error! status: 404 - Not Found'') \<and>
   errorDetails (fst (fetchDogImage sample_platform ''t0''
      (Fetch_resolves (sample_response False 500 ''Failed to fetch'' None JNull)) mounted)) =
     Some \<lparr>api_status = 0, api_statusText = ''Network Error'', api_message = Some ''Network connection failed''\<rparr> \<and>
   classified_context (fetchDogImage sample_platform ''t0''
      (Fetch_resolves (sample_response False 500 ''Failed to fetch'' None JNull)) mounted) = Some ''useDogApi-network'' \<and>
   errorDetails (fst (fetchDogImage sample_platform ''t0''
      (Fetch_resolves (sample_response True 200 ''OK'' (Some ''text/html'') JNull)) mounted)) =
     Some \<lparr>api_status = 200, api_statusText = ''OK'', api_message = Some ''Invalid response content type''\<rparr> \<and>
   classified_message (fetchDogImage sample_platform ''t0''
      (Fetch_resolves (sample_response True 200 ''OK'' (Some ''application/json'')
         (JObj [(''status'', JStr ''success'')]))) mounted) =
     Some (JStr ''Invalid response format: missing or invalid message field'') \<and>
   classified_message (fetchDogImage sample_platform ''t0''
      (Fetch_resolves (sample_response True 200 ''OK'' (Some ''application/json'')
         (JObj [(''message'', JStr ''https://example.com/dog.jpg'')]))) mounted) =
     Some (JStr ''Invalid response format: missing or invalid status field'') \<and>
   public_error (fetchDogImage sample_platform ''t0'' (Fetch_rejects (JStr ''offline'')) mounted)"
proof -
  note t = fetch_failures [of _ sample_platform mounted "''t0''"]
  have j: "json_content (sample_response True 200 ''OK'' (Some ''application/json'') b)" for b
    by (simp add: json_content_def sample_response_def str_includes.simps)
  have h: "\<not> json_content (sample_response True 200 ''OK'' (Some ''text/html'') JNull)"
    by (simp add: json_content_def sample_response_def str_includes.simps)
  have a0: "errorDetails (fst (snd (fetchDogImage_try sample_platform
      (Fetch_resolves (sample_response False 404 ''Not Found'' None JNull)) mounted))) =
     Some \<lparr>api_status = 404, api_statusText = ''Not Found'', api_message = Some ''HTTP 404: Not Found''\<rparr>"
    using t [of "sample_response False 404 ''Not Found'' None JNull"]
    by (simp add: sample_response_def string_of_nat.simps)
  have a: "errorDetails (fst (fetchDogImage sample_platform ''t0''
      (Fetch_resolves (sample_response False 404 ''Not Found'' None JNull)) mounted)) =
     Some \<lparr>api_status = 404, api_statusText = ''Not Found'', api_message = Some ''HTTP 404: Not Found''\<rparr> \<and>
   classified_message (fetchDogImage sample_platform ''t0''
      (Fetch_resolves (sample_response False 404 ''Not Found'' None JNull)) mounted) =
     Some (JStr ''HTTP error! status: 404 - Not Found'')"
    using t [of "sample_response False 404 ''Not Found'' None JNull"] not_found_message
    by (simp add: sample_response_def string_of_nat.simps)
  have n: "errorDetails (fst (fetchDogImage sample_platform ''t0''
      (Fetch_resolves (sample_response False 500 ''Failed to fetch'' None JNull)) mounted)) =
     Some \<lparr>api_status = 0, api_statusText = ''Network Error'', api_message = Some ''Network connection failed''\<rparr> \<and>
   classified_context (fetchDogImage sample_platform ''t0''
      (Fetch_resolves (sample_response False 500 ''Failed to fetch'' None JNull)) mounted) = Some ''useDogApi-network''"
    using t [of "sample_response False 500 ''Failed to fetch'' None JNull"] failed_to_fetch_message
    by (simp add: sample_response_def)
  have b: "errorDetails (fst (fetchDogImage sample_platform ''t0''
      (Fetch_resolves (sample_response True 200 ''OK'' (Some ''text/html'') JNull)) mounted)) =
     Some \<lparr>api_status = 200, api_statusText = ''OK'', api_message = Some ''Invalid response content type''\<rparr>"
    using t [of "sample_response True 200 ''OK'' (Some ''text/html'') JNull"] h
    by (simp add: sample_response_def)
  have c: "classified_message (fetchDogImage sample_platform ''t0''
      (Fetch_resolves (sample_response True 200 ''OK'' (Some ''application/json'')
         (JObj [(''status'', JStr ''success'')]))) mounted) =
     Some (JStr ''Invalid response format: missing or invalid message field'')"
    using t [of "sample_response True 200 ''OK'' (Some ''application/json'') (JObj [(''status'', JStr ''success'')])"
               "JObj [(''status'', JStr ''success'')]"]
      j [of "JObj [(''status'', JStr ''success'')]"]
    by (simp add: sample_response_def is_object_def nonempty_string_def object_prototype_get_def
          object_prototype_methods_def)
  have d: "classified_message (fetchDogImage sample_platform ''t0''
      (Fetch_resolves (sample_response True 200 ''OK'' (Some ''application/json'')
         (JObj [(''message'', JStr ''https://example.com/dog.jpg'')]))) mounted) =
     Some (JStr ''Invalid response format: missing or invalid status field'')"
    using t [of "sample_response True 200 ''OK'' (Some ''application/json'') (JObj [(''message'', JStr ''https://example.com/dog.jpg'')])"
               "JObj [(''message'', JStr ''https://example.com/dog.jpg'')]"]
      j [of "JObj [(''message'', JStr ''https://example.com/dog.jpg'')]"]
    by (simp add: sample_response_def is_object_def nonempty_string_def object_prototype_get_def
          object_prototype_methods_def)
  have e: "public_error (fetchDogImage sample_platform ''t0'' (Fetch_rejects (JStr ''offline'')) mounted)"
    using t [of "sample_response False 404 ''Not Found'' None JNull" JNull "Fetch_rejects (JStr ''offline'')"]
    by (simp add: succeeds_def)
  show ?thesis
    using a0 a n b c d e by blast
qed


text \<open>
  Claim C6 as stated has the generic error carry the same message as
  \<open>errorDetails\<close>. On a 404 the details say \<open>HTTP 404: Not Found\<close> and the error
  thrown and classified says \<open>HTTP error! status: 404 - Not Found\<close>. It also has the
  details read \<open>HTTP S: T\<close> for every status text: on a 500 whose status text is
  \<open>Failed to fetch\<close> they end as those of a network failure.
\<close>

theorem http_message_counterexample:
  "map_option api_message (errorDetails (fst (fetchDogImage sample_platform ''t0''
      (Fetch_resolves (sample_response False 404 ''Not Found'' None JNull)) mounted))) =
     Some (Some ''HTTP 404: Not Found'') \<and>
   classified_message (fetchDogImage sample_platform ''t0''
      (Fetch_resolves (sample_response False 404 ''Not Found'' None JNull)) mounted) =
     Some (JStr ''HTTP error! status: 404 - Not Found'') \<and>
   errorDetails (fst (fetchDogImage sample_platform ''t0''
      (Fetch_resolves (sample_response False 500 ''Failed to fetch'' None JNull)) mounted)) =
     Some \<lparr>api_status = 0, api_statusText = ''Network Error'', api_message = Some ''Network connection failed''\<rparr>"
  by (simp add: fetchDogImage_def fetchDogImage_try_def fetchDogImage_catch_def Let_def
      sample_response_def mounted_def new_Error_def handleError_def createAppError_def js_or_def
      classified_message_def apiError_def log_info_def string_of_nat.simps str_includes.simps)

subsection \<open>The registry of a reachable manager\<close>

text \<open>
  The keys of the registry stay distinct whatever is done to a manager after
  \<open>new WindowManager()\<close>: the property of a \<open>Map\<close> that the statement about
  \<open>getActiveWindowCount\<close> assumes.
\<close>

lemma construct_window_distinct:
  "distinct (map fst (childWindows wm)) \<Longrightarrow>
   distinct (map fst (childWindows (fst (snd (construct_window pf ctor t wid wd ht wm w)))))"
  by (simp add: construct_window_def Let_def distinct_update split: sum.splits)

lemma createChildWindow_try_distinct:
  "distinct (map fst (childWindows wm)) \<Longrightarrow>
   distinct (map fst (childWindows (fst (snd (createChildWindow_try pf ctor type d wm w)))))"
  unfolding createChildWindow_try_def Let_def
  by (simp add: construct_window_distinct split: jsval.splits sum.splits option.splits bool.splits prod.splits)

lemma createChildWindow_distinct:
  assumes "distinct (map fst (childWindows wm))"
  shows "distinct (map fst (childWindows (fst (snd (createChildWindow pf ctor type d wm w)))))"
  using createChildWindow_try_distinct [OF assms] by (simp add: createChildWindow_manager)

lemma step_distinct:
  assumes "distinct (map fst (childWindows (fst s)))"
  shows "distinct (map fst (childWindows (fst (step pf x s))))"
proof -
  obtain wm w ids where s: "s = (wm, w, ids)" by (cases s) auto
  show ?thesis
  proof (cases x)
    case (Op_create type d ctor)
    from assms s have "distinct (map fst (childWindows wm))" by simp
    from createChildWindow_distinct [OF this, of pf ctor type d w]
    show ?thesis
      by (cases "createChildWindow pf ctor type d wm w" rule: prod_cases3)
         (auto simp: s Op_create split: sum.splits)
  next
    case Op_closeAll
    show ?thesis
      using closeAll_result(2) [of wm w]
      by (cases "closeAllChildWindows wm w" rule: prod_cases3) (auto simp: s Op_closeAll)
  next
    case Op_count
    have "fst (snd (getActiveWindowCount wm w)) =
            wm\<lparr>childWindows := filter (\<lambda>e. fst e \<notin> set (fst (snd (count_loop w 0 [] (childWindows wm))))) (childWindows wm)\<rparr>"
      by (simp add: getActiveWindowCount_def cleanup_loop_result split_beta)
    then show ?thesis
      using assms
      by (cases "getActiveWindowCount wm w" rule: prod_cases3) (auto simp: s Op_count distinct_map_filter)
  next
    case (Op_closed t wid)
    then show ?thesis using assms by (simp add: s on_closed_def distinct_delete)
  next
    case (Op_destroyed h)
    then show ?thesis using assms by (simp add: s)
  qed
qed

lemma reachable_registry_distinct:
  "distinct (map fst (childWindows (fst (run pf ops (new_manager, w0, [])))))"
proof -
  have "distinct (map fst (childWindows (fst s))) \<Longrightarrow>
        distinct (map fst (childWindows (fst (run pf ops s))))" for s
    by (induction ops arbitrary: s) (simp_all add: step_distinct)
  from this [of "(new_manager, w0, [])"] show ?thesis
    by (simp add: new_manager_def)
qed

end
